theory Spec2Isabelle
  imports Main "HOL-Library.Word"
begin

section \<open>Gpu::AsyncArray: a temporary buffer resident on the host, the device, or both\<close>

text \<open>
  The development embeds the class template \<open>amrex::Gpu::AsyncArray<T>\<close> of
  \<^verbatim>\<open>Src/Base/AMReX_GpuAsyncArray.H\<close>. The class has two private pointers and five
  operations (two constructors, \<open>data\<close>, \<open>clear\<close>, \<open>copyToHost\<close>); everything else it
  touches belongs to collaborators: the two arenas, \<open>std::memcpy\<close>, and the device
  runtime with its command stream. The collaborators are modelled as an explicit world
  that every operation takes and returns, together with a log of the calls made to them.
\<close>

subsection \<open>Values\<close>

text \<open>
  \<open>std::size_t\<close> is a 64-bit unsigned integer: the product \<open>n*sizeof(T)\<close> wraps around.
  A pointer is an address; address 0 is \<open>nullptr\<close>. The code only ever uses the base
  pointer of an allocation, so memory is a list of blocks keyed by their base address.
  A byte of a block is \<open>None\<close> while it is indeterminate (fresh from an arena).
\<close>

type_synonym size_t = "64 word"
type_synonym ptr = nat
type_synonym byte = "8 word"
type_synonym block = "byte option list"
type_synonym memory = "(ptr \<times> block) list"

abbreviation nullptr :: ptr where
  "nullptr \<equiv> 0"

text \<open>
  The preprocessor configuration the header is compiled under. \<open>AMREX_USE_GPU\<close> is
  defined exactly when one of CUDA, HIP or SYCL is; for SYCL the header distinguishes
  whether \<open>AMREX_USE_CODEPLAY_HOST_TASK\<close> is defined.
\<close>

datatype backend = No_gpu | Cuda | Hip | Sycl_host_task | Sycl_no_host_task

definition AMREX_USE_GPU :: "backend \<Rightarrow> bool" where
  "AMREX_USE_GPU be = (be \<noteq> No_gpu)"

datatype pool = Pinned_arena | Device_arena

datatype error = Undefined_behaviour | Invalid_free | Abort

text \<open>
  Work pending on the command stream \<open>Gpu::gpuStream()\<close>, oldest first: an asynchronous
  host-to-device copy (destination, source, byte count), a registered release of a
  device and a host pointer (the two-pointer record handed to \<open>amrex_asyncarray_delete\<close>,
  or the two captures of the SYCL host task), and device work issued by the caller that
  accesses the listed device allocations.
\<close>

datatype work =
    Htod_copy ptr ptr size_t
  | Release ptr ptr
  | Device_work "ptr list"

text \<open>The calls the class and its release function make to their collaborators.\<close>

datatype call =
    Alloc_call pool size_t
  | Free_call pool ptr
  | Memcpy_call ptr ptr size_t
  | Htod_memcpy_async_call ptr ptr size_t
  | Dtoh_memcpy_call ptr ptr size_t
  | Register_release_call ptr ptr
  | Stream_synchronize_call

record world =
  launch_region :: bool
  registration_fails :: bool
  host_mem :: memory
  pinned :: "ptr list"
  dev_mem :: memory
  stream :: "work list"
  calls :: "call list"

text \<open>
  \<open>launch_region\<close> is what \<open>Gpu::inLaunchRegion()\<close> answers; \<open>registration_fails\<close> says
  whether the device runtime rejects the next callback or host-task registration;
  \<open>host_mem\<close> holds every host-addressable block, the caller's and the pinned arena's;
  \<open>pinned\<close> lists the live allocations of \<open>The_Pinned_Arena()\<close>; \<open>dev_mem\<close> holds the live
  allocations of \<open>The_Arena()\<close>; \<open>calls\<close> is the log, oldest first.
\<close>

record AsyncArray =
  d_data :: ptr
  h_data :: ptr

subsection \<open>Collaborators\<close>

primrec fresh_ptr :: "memory \<Rightarrow> ptr" where
  "fresh_ptr [] = 1"
| "fresh_ptr (e # m) = max (Suc (fst e)) (fresh_ptr m)"

definition is_block :: "memory \<Rightarrow> ptr \<Rightarrow> bool" where
  "is_block m p = (map_of m p \<noteq> None)"

definition store :: "ptr \<Rightarrow> block \<Rightarrow> memory \<Rightarrow> memory" where
  "store p b m = map (\<lambda>e. if fst e = p then (p, b) else e) m"

definition discard :: "ptr \<Rightarrow> memory \<Rightarrow> memory" where
  "discard p m = filter (\<lambda>e. fst e \<noteq> p) m"

definition log_call :: "call \<Rightarrow> world \<Rightarrow> world" where
  "log_call c w = w\<lparr>calls := calls w @ [c]\<rparr>"

text \<open>
  Modelled from the spec: \<open>Arena::alloc\<close> of \<^verbatim>\<open>AMReX_Arena.H\<close>, which is not among the
  sources. The spec gives it as \<open>allocate(byteSize) -> rawPointer\<close>, with allocation
  failure fatal inside the arena. Here it always succeeds and returns an address that is
  not null and not the base of any block of that memory; the new block has \<open>nbytes\<close>
  indeterminate bytes.
\<close>

definition arena_alloc :: "pool \<Rightarrow> size_t \<Rightarrow> world \<Rightarrow> ptr \<times> world" where
  "arena_alloc P nbytes w =
     (case P of
        Pinned_arena \<Rightarrow>
          (let p = fresh_ptr (host_mem w) in
           (p, log_call (Alloc_call Pinned_arena nbytes)
                 (w\<lparr>host_mem := (p, replicate (unat nbytes) None) # host_mem w,
                    pinned := p # pinned w\<rparr>)))
      | Device_arena \<Rightarrow>
          (let p = fresh_ptr (dev_mem w) in
           (p, log_call (Alloc_call Device_arena nbytes)
                 (w\<lparr>dev_mem := (p, replicate (unat nbytes) None) # dev_mem w\<rparr>))))"

text \<open>
  Modelled from the spec: \<open>Arena::free\<close> of \<^verbatim>\<open>AMReX_Arena.H\<close>, given as \<open>free(rawPointer)\<close>.
  Freeing \<open>nullptr\<close> releases nothing (the release function and \<open>clear\<close> both hand it a
  possibly-null host pointer). Freeing a pointer that is not a live allocation of the
  arena is an error. Freeing removes the block, and the address may be handed out again.
\<close>

definition arena_free :: "pool \<Rightarrow> ptr \<Rightarrow> world \<Rightarrow> error + world" where
  "arena_free P p w =
     (let w' = log_call (Free_call P p) w in
      if p = nullptr then Inr w'
      else (case P of
              Pinned_arena \<Rightarrow>
                (if p \<in> set (pinned w) \<and> is_block (host_mem w) p
                 then Inr (w'\<lparr>host_mem := discard p (host_mem w), pinned := removeAll p (pinned w)\<rparr>)
                 else Inl Invalid_free)
            | Device_arena \<Rightarrow>
                (if is_block (dev_mem w) p
                 then Inr (w'\<lparr>dev_mem := discard p (dev_mem w)\<rparr>)
                 else Inl Invalid_free)))"

text \<open>
  \<open>std::memcpy(dst, src, nbytes)\<close> on host memory. Reading or writing outside a block, and
  copying a block onto itself, is undefined behaviour.
\<close>

definition copy_bytes :: "nat \<Rightarrow> block \<Rightarrow> block \<Rightarrow> block" where
  "copy_bytes k src_block dst_block = take k src_block @ drop k dst_block"

definition memcpy :: "ptr \<Rightarrow> ptr \<Rightarrow> size_t \<Rightarrow> world \<Rightarrow> error + world" where
  "memcpy dst src nbytes w =
     (case (map_of (host_mem w) dst, map_of (host_mem w) src) of
        (Some db, Some sb) \<Rightarrow>
          (if unat nbytes \<le> length sb \<and> unat nbytes \<le> length db \<and> dst \<noteq> src
           then Inr (log_call (Memcpy_call dst src nbytes)
                       (w\<lparr>host_mem := store dst (copy_bytes (unat nbytes) sb db) (host_mem w)\<rparr>))
           else Inl Undefined_behaviour)
      | _ \<Rightarrow> Inl Undefined_behaviour)"

text \<open>
  Modelled from the spec: what the device runtime does with one unit of pending work.
  The asynchronous copy moves \<open>nbytes\<close> bytes from the host block to the device block.
  The release is \<open>amrex_asyncarray_delete\<close> (declared in the header, defined in a file that
  is not among the sources): it frees the device pointer to \<open>The_Arena()\<close> and the host
  pointer to \<open>The_Pinned_Arena()\<close>. Device work issued by the caller needs the allocations
  it accesses to be live; what it writes is the caller's business and is not modelled.
\<close>

definition exec_work :: "work \<Rightarrow> world \<Rightarrow> error + world" where
  "exec_work it w =
     (case it of
        Htod_copy dst src nbytes \<Rightarrow>
          (case (map_of (dev_mem w) dst, map_of (host_mem w) src) of
             (Some db, Some sb) \<Rightarrow>
               (if unat nbytes \<le> length sb \<and> unat nbytes \<le> length db
                then Inr (w\<lparr>dev_mem := store dst (copy_bytes (unat nbytes) sb db) (dev_mem w)\<rparr>)
                else Inl Undefined_behaviour)
           | _ \<Rightarrow> Inl Undefined_behaviour)
      | Release d h \<Rightarrow>
          (case arena_free Device_arena d w of
             Inl e \<Rightarrow> Inl e
           | Inr w' \<Rightarrow> arena_free Pinned_arena h w')
      | Device_work ps \<Rightarrow>
          (if list_all (is_block (dev_mem w)) ps then Inr w else Inl Undefined_behaviour))"

text \<open>
  Modelled from the spec: a command stream executes its work in the order it was
  enqueued.
\<close>

fun run_stream :: "work list \<Rightarrow> world \<Rightarrow> error + world" where
  "run_stream [] w = Inr w"
| "run_stream (it # q) w =
     (case exec_work it w of Inl e \<Rightarrow> Inl e | Inr w' \<Rightarrow> run_stream q w')"

text \<open>
  Modelled from the spec: \<open>Gpu::streamSynchronize\<close> of \<^verbatim>\<open>AMReX_GpuDevice.H\<close> blocks until the
  stream has run all its work.
\<close>

definition streamSynchronize :: "world \<Rightarrow> error + world" where
  "streamSynchronize w =
     run_stream (stream w) (log_call Stream_synchronize_call (w\<lparr>stream := []\<rparr>))"

text \<open>
  Modelled from the spec: \<open>Gpu::htod_memcpy_async\<close> only enqueues the copy on the current
  stream and returns.
\<close>

definition htod_memcpy_async :: "ptr \<Rightarrow> ptr \<Rightarrow> size_t \<Rightarrow> world \<Rightarrow> world" where
  "htod_memcpy_async dst src nbytes w =
     log_call (Htod_memcpy_async_call dst src nbytes)
       (w\<lparr>stream := stream w @ [Htod_copy dst src nbytes]\<rparr>)"

text \<open>
  Modelled from the spec: \<open>Gpu::dtoh_memcpy\<close> is synchronous for the caller; the copy
  happens after all work enqueued before it and is complete when the call returns.
\<close>

definition dtoh_memcpy :: "ptr \<Rightarrow> ptr \<Rightarrow> size_t \<Rightarrow> world \<Rightarrow> error + world" where
  "dtoh_memcpy dst src nbytes w =
     (case run_stream (stream w) (log_call (Dtoh_memcpy_call dst src nbytes) (w\<lparr>stream := []\<rparr>)) of
        Inl e \<Rightarrow> Inl e
      | Inr w' \<Rightarrow>
          (case (map_of (host_mem w') dst, map_of (dev_mem w') src) of
             (Some db, Some sb) \<Rightarrow>
               (if unat nbytes \<le> length sb \<and> unat nbytes \<le> length db
                then Inr (w'\<lparr>host_mem := store dst (copy_bytes (unat nbytes) sb db) (host_mem w')\<rparr>)
                else Inl Undefined_behaviour)
           | _ \<Rightarrow> Inl Undefined_behaviour))"

text \<open>
  Modelled from the spec: \<open>hipStreamAddCallback\<close>, \<open>cudaLaunchHostFunc\<close> and the SYCL
  host-task submission. The registration returns at once, with the release enqueued
  behind the work already on the stream. A failed registration aborts
  (\<open>AMREX_HIP_SAFE_CALL\<close>, \<open>AMREX_CUDA_SAFE_CALL\<close>, \<open>amrex::Abort\<close> in the \<open>catch\<close>).
\<close>

definition register_release :: "ptr \<Rightarrow> ptr \<Rightarrow> world \<Rightarrow> error + world" where
  "register_release d h w =
     (if registration_fails w then Inl Abort
      else Inr (log_call (Register_release_call d h) (w\<lparr>stream := stream w @ [Release d h]\<rparr>)))"

text \<open>
  Modelled from the spec: the runtime makes progress on its own; one step runs the oldest
  pending work.
\<close>

fun stream_progress :: "nat \<Rightarrow> world \<Rightarrow> error + world" where
  "stream_progress 0 w = Inr w"
| "stream_progress (Suc k) w =
     (case stream w of
        [] \<Rightarrow> Inr w
      | it # q \<Rightarrow>
          (case exec_work it (w\<lparr>stream := q\<rparr>) of
             Inl e \<Rightarrow> Inl e
           | Inr w' \<Rightarrow> stream_progress k w'))"

subsection \<open>The class\<close>

text \<open>
  \<open>inLaunchRegion\<close> is only asked where \<open>AMREX_USE_GPU\<close> is defined; without it the
  guarded branches are not compiled.
\<close>

definition in_launch_region :: "backend \<Rightarrow> world \<Rightarrow> bool" where
  "in_launch_region be w = (AMREX_USE_GPU be \<and> launch_region w)"

definition empty_array :: AsyncArray where
  "empty_array = \<lparr>d_data = nullptr, h_data = nullptr\<rparr>"

text \<open>\<open>AsyncArray (T const* h_p, const std::size_t n)\<close>; \<open>sizeof_T\<close> is \<open>sizeof(T)\<close>.\<close>

definition AsyncArray_from_host ::
  "backend \<Rightarrow> size_t \<Rightarrow> ptr \<Rightarrow> size_t \<Rightarrow> world \<Rightarrow> error + (world \<times> AsyncArray)" where
  "AsyncArray_from_host be sizeof_T h_p n w =
     (if n = 0 then Inr (w, empty_array)
      else
        (let (h, w1) = arena_alloc Pinned_arena (n * sizeof_T) w in
         case memcpy h h_p (n * sizeof_T) w1 of
           Inl e \<Rightarrow> Inl e
         | Inr w2 \<Rightarrow>
             (if in_launch_region be w2
              then (let (d, w3) = arena_alloc Device_arena (n * sizeof_T) w2 in
                    Inr (htod_memcpy_async d h (n * sizeof_T) w3, \<lparr>d_data = d, h_data = h\<rparr>))
              else Inr (w2, \<lparr>d_data = nullptr, h_data = h\<rparr>))))"

text \<open>\<open>explicit AsyncArray (const std::size_t n)\<close>.\<close>

definition AsyncArray_uninit ::
  "backend \<Rightarrow> size_t \<Rightarrow> size_t \<Rightarrow> world \<Rightarrow> error + (world \<times> AsyncArray)" where
  "AsyncArray_uninit be sizeof_T n w =
     (if n = 0 then Inr (w, empty_array)
      else if in_launch_region be w
      then (let (d, w1) = arena_alloc Device_arena (n * sizeof_T) w in
            Inr (w1, \<lparr>d_data = d, h_data = nullptr\<rparr>))
      else (let (h, w1) = arena_alloc Pinned_arena (n * sizeof_T) w in
            Inr (w1, \<lparr>d_data = nullptr, h_data = h\<rparr>)))"

definition data :: "AsyncArray \<Rightarrow> ptr" where
  "data a = (if d_data a \<noteq> nullptr then d_data a else h_data a)"

text \<open>
  \<open>clear\<close>. In the launch region with a device pointer, CUDA and HIP pack both pointers
  into a record and register \<open>amrex_asyncarray_delete\<close> on the stream; SYCL with host
  tasks submits a task capturing both pointers; SYCL without them synchronizes the
  stream and frees both pointers itself. Outside the launch region only the host
  pointer is freed. Both pointers are set to null at the end. Without \<open>AMREX_USE_GPU\<close>
  the launch-region branch is not compiled (the \<open>No_gpu\<close> case is never reached).
\<close>

definition clear :: "backend \<Rightarrow> AsyncArray \<Rightarrow> world \<Rightarrow> error + (world \<times> AsyncArray)" where
  "clear be a w =
     (case
        (if in_launch_region be w
         then (if d_data a \<noteq> nullptr
               then (case be of
                       Hip \<Rightarrow> register_release (d_data a) (h_data a) w
                     | Cuda \<Rightarrow> register_release (d_data a) (h_data a) w
                     | Sycl_host_task \<Rightarrow> register_release (d_data a) (h_data a) w
                     | Sycl_no_host_task \<Rightarrow>
                         (case streamSynchronize w of
                            Inl e \<Rightarrow> Inl e
                          | Inr w1 \<Rightarrow>
                              (case arena_free Device_arena (d_data a) w1 of
                                 Inl e \<Rightarrow> Inl e
                               | Inr w2 \<Rightarrow> arena_free Pinned_arena (h_data a) w2))
                     | No_gpu \<Rightarrow> Inr w)
               else Inr w)
         else arena_free Pinned_arena (h_data a) w)
      of
        Inl e \<Rightarrow> Inl e
      | Inr w' \<Rightarrow> Inr (w', a\<lparr>d_data := nullptr, h_data := nullptr\<rparr>))"

text \<open>\<open>~AsyncArray () { clear(); }\<close>\<close>

definition destructor :: "backend \<Rightarrow> AsyncArray \<Rightarrow> world \<Rightarrow> error + (world \<times> AsyncArray)" where
  "destructor be a w = clear be a w"

text \<open>
  \<open>copyToHost (T* h_p, std::size_t n)\<close>. The test of \<open>d_data\<close> is compiled only with
  \<open>AMREX_USE_GPU\<close>.
\<close>

definition copyToHost ::
  "backend \<Rightarrow> size_t \<Rightarrow> AsyncArray \<Rightarrow> ptr \<Rightarrow> size_t \<Rightarrow> world \<Rightarrow> error + world" where
  "copyToHost be sizeof_T a h_p n w =
     (if n = 0 then Inr w
      else if AMREX_USE_GPU be \<and> d_data a \<noteq> nullptr
      then dtoh_memcpy h_p (d_data a) (n * sizeof_T) w
      else if h_data a \<noteq> nullptr
      then memcpy h_p (h_data a) (n * sizeof_T) w
      else Inr w)"

subsection \<open>Buffer states and auxiliary predicates\<close>

text \<open>
  The states a buffer constructed with element count \<open>n\<close> can be in: what a constructor
  returns, and what \<open>clear\<close> leaves behind. The class stores no element count, so \<open>n\<close> is
  the constructor's argument. \<open>copyToHost\<close> and \<open>data\<close> are \<open>const\<close>; the class cannot be
  copied, moved or assigned.
\<close>

inductive buffer_state :: "backend \<Rightarrow> size_t \<Rightarrow> AsyncArray \<Rightarrow> bool"
  for be :: backend and n :: size_t where
  constructed_from_host:
    "AsyncArray_from_host be sizeof_T h_p n w = Inr (w', a) \<Longrightarrow> buffer_state be n a"
| constructed_uninit:
    "AsyncArray_uninit be sizeof_T n w = Inr (w', a) \<Longrightarrow> buffer_state be n a"
| cleared:
    "buffer_state be n a \<Longrightarrow> clear be a w = Inr (w', a') \<Longrightarrow> buffer_state be n a'"

text \<open>
  The allocation-state invariant in the spec's words: both pointers null with count 0,
  or only the host pointer set, or only the device pointer set, or both set.
\<close>

definition claimed_invariant :: "size_t \<Rightarrow> AsyncArray \<Rightarrow> bool" where
  "claimed_invariant n a =
     ((d_data a = nullptr \<and> h_data a = nullptr \<and> n = 0) \<or>
      (d_data a = nullptr \<and> h_data a \<noteq> nullptr) \<or>
      (d_data a \<noteq> nullptr \<and> h_data a = nullptr) \<or>
      (d_data a \<noteq> nullptr \<and> h_data a \<noteq> nullptr))"

text \<open>Every allocation the buffer points to is live in its arena.\<close>

definition owns_live :: "AsyncArray \<Rightarrow> world \<Rightarrow> bool" where
  "owns_live a w =
     ((d_data a = nullptr \<or> is_block (dev_mem w) (d_data a)) \<and>
      (h_data a = nullptr \<or> (h_data a \<in> set (pinned w) \<and> is_block (host_mem w) (h_data a))))"

definition is_free_call :: "call \<Rightarrow> bool" where
  "is_free_call c = (case c of Free_call P p \<Rightarrow> True | _ \<Rightarrow> False)"

text \<open>Pending work that releases a given device pointer, or a given host pointer.\<close>

definition releases :: "ptr \<Rightarrow> work \<Rightarrow> bool" where
  "releases d it = (case it of Release d' h \<Rightarrow> d' = d | _ \<Rightarrow> False)"

definition releases_host :: "ptr \<Rightarrow> work \<Rightarrow> bool" where
  "releases_host p it = (case it of Release d h \<Rightarrow> h = p | _ \<Rightarrow> False)"

text \<open>
  \<open>wx\<close> is \<open>w\<close> with one more pinned block at \<open>h\<close> and one more device block at \<open>d\<close>, both
  at addresses unused in \<open>w\<close>.
\<close>

definition extends_by :: "ptr \<Rightarrow> block \<Rightarrow> ptr \<Rightarrow> block \<Rightarrow> world \<Rightarrow> world \<Rightarrow> bool" where
  "extends_by h hb d db w wx =
     (host_mem wx = (h, hb) # host_mem w \<and> pinned wx = h # pinned w \<and>
      dev_mem wx = (d, db) # dev_mem w \<and> h \<noteq> nullptr \<and> d \<noteq> nullptr \<and>
      \<not> is_block (host_mem w) h \<and> \<not> is_block (dev_mem w) d)"

subsection \<open>Example worlds\<close>

text \<open>
  A host array of four bytes at address 1 and a four-byte destination at address 2, with
  no device work in flight.
\<close>

definition sync_world :: world where
  "sync_world =
     \<lparr>launch_region = False, registration_fails = False,
      host_mem = [(2, [None, None, None, None]), (1, [Some 1, Some 2, Some 3, Some 4])],
      pinned = [], dev_mem = [], stream = [], calls = []\<rparr>"

definition async_world :: world where
  "async_world = sync_world\<lparr>launch_region := True\<rparr>"

text \<open>
  What the CUDA build's \<open>AsyncArray<char>(h_p = 1, n = 4)\<close> leaves of \<open>async_world\<close>: the
  staging block at host address 3, the device block at address 1, and the copy pending.
\<close>

definition staged_world :: world where
  "staged_world =
     \<lparr>launch_region = True, registration_fails = False,
      host_mem = [(3, [Some 1, Some 2, Some 3, Some 4]), (2, [None, None, None, None]),
                  (1, [Some 1, Some 2, Some 3, Some 4])],
      pinned = [3], dev_mem = [(1, [None, None, None, None])],
      stream = [Htod_copy 1 3 4],
      calls = [Alloc_call Pinned_arena 4, Memcpy_call 3 1 4, Alloc_call Device_arena 4,
               Htod_memcpy_async_call 1 3 4]\<rparr>"

text \<open>
  What \<open>AsyncArray<char>(h_p = 1, n = 4)\<close> leaves of \<open>sync_world\<close> in a build without GPU
  support: the block at host address 3 holding the source bytes.
\<close>

definition host_staged_world :: world where
  "host_staged_world =
     \<lparr>launch_region = False, registration_fails = False,
      host_mem = [(3, [Some 1, Some 2, Some 3, Some 4]), (2, [None, None, None, None]),
                  (1, [Some 1, Some 2, Some 3, Some 4])],
      pinned = [3], dev_mem = [], stream = [],
      calls = [Alloc_call Pinned_arena 4, Memcpy_call 3 1 4]\<rparr>"

text \<open>
  The launch region is active, the device arena holds one allocation at address 1, and
  the caller has device work pending that accesses it.
\<close>

definition device_world :: world where
  "device_world =
     \<lparr>launch_region = True, registration_fails = False,
      host_mem = [(1, [None])], pinned = [], dev_mem = [(1, [Some 7])],
      stream = [Device_work [1]], calls = []\<rparr>"

section \<open>Auxiliary facts\<close>

lemma log_call_simps [simp]:
  "launch_region (log_call c w) = launch_region w"
  "registration_fails (log_call c w) = registration_fails w"
  "host_mem (log_call c w) = host_mem w"
  "pinned (log_call c w) = pinned w"
  "dev_mem (log_call c w) = dev_mem w"
  "stream (log_call c w) = stream w"
  "calls (log_call c w) = calls w @ [c]"
  by (simp_all add: log_call_def)

lemma in_launch_region_log [simp]:
  "in_launch_region be (log_call c w) = in_launch_region be w"
  by (simp add: in_launch_region_def)

lemma fresh_ptr_pos: "0 < fresh_ptr m"
  by (induction m) auto

lemma fresh_ptr_gt: "map_of m p = Some b \<Longrightarrow> p < fresh_ptr m"
  by (induction m) (auto split: if_splits)

lemma map_of_fresh [simp]: "map_of m (fresh_ptr m) = None"
  using fresh_ptr_gt [of m "fresh_ptr m"] by (cases "map_of m (fresh_ptr m)") auto

lemma store_absent: "map_of m p = None \<Longrightarrow> store p b m = m"
  by (induction m) (auto simp: store_def split: if_splits)

lemma is_block_fresh [simp]: "\<not> is_block m (fresh_ptr m)"
  by (simp add: is_block_def)

lemma store_head: "store p b ((p, c) # m) = (p, b) # store p b m"
  by (simp add: store_def)

lemma alloc_pinned:
  "arena_alloc Pinned_arena nb w =
     (fresh_ptr (host_mem w),
      log_call (Alloc_call Pinned_arena nb)
        (w\<lparr>host_mem := (fresh_ptr (host_mem w), replicate (unat nb) None) # host_mem w,
           pinned := fresh_ptr (host_mem w) # pinned w\<rparr>))"
  by (simp add: arena_alloc_def Let_def)

lemma alloc_device:
  "arena_alloc Device_arena nb w =
     (fresh_ptr (dev_mem w),
      log_call (Alloc_call Device_arena nb)
        (w\<lparr>dev_mem := (fresh_ptr (dev_mem w), replicate (unat nb) None) # dev_mem w\<rparr>))"
  by (simp add: arena_alloc_def Let_def)

lemma copy_bytes_fresh:
  "k \<le> length sb \<Longrightarrow> copy_bytes k sb (replicate k c) = take k sb"
  by (simp add: copy_bytes_def)

lemma memcpy_into_fresh:
  assumes src: "map_of (host_mem w) h_p = Some sb" and len: "unat nb \<le> length sb"
  shows "memcpy (fresh_ptr (host_mem w)) h_p nb (snd (arena_alloc Pinned_arena nb w)) =
           Inr (log_call (Memcpy_call (fresh_ptr (host_mem w)) h_p nb)
                 (log_call (Alloc_call Pinned_arena nb)
                   (w\<lparr>host_mem := (fresh_ptr (host_mem w), take (unat nb) sb) # host_mem w,
                      pinned := fresh_ptr (host_mem w) # pinned w\<rparr>)))"
proof -
  have ne: "h_p \<noteq> fresh_ptr (host_mem w)"
    using fresh_ptr_gt [OF src] by simp
  show ?thesis
    using src len ne
    by (simp add: memcpy_def alloc_pinned store_head store_absent copy_bytes_fresh log_call_def)
qed

lemma in_launch_region_upd [simp]:
  "in_launch_region be (w\<lparr>host_mem := hm\<rparr>) = in_launch_region be w"
  "in_launch_region be (w\<lparr>pinned := pl\<rparr>) = in_launch_region be w"
  "in_launch_region be (w\<lparr>dev_mem := dm\<rparr>) = in_launch_region be w"
  "in_launch_region be (w\<lparr>stream := q\<rparr>) = in_launch_region be w"
  "in_launch_region be (w\<lparr>calls := cs\<rparr>) = in_launch_region be w"
  by (simp_all add: in_launch_region_def)

lemma from_host_sync:
  assumes "n \<noteq> 0" and "map_of (host_mem w) h_p = Some sb"
    and "unat (n * sizeof_T) \<le> length sb" and "\<not> in_launch_region be w"
  shows "AsyncArray_from_host be sizeof_T h_p n w =
           Inr (log_call (Memcpy_call (fresh_ptr (host_mem w)) h_p (n * sizeof_T))
                 (log_call (Alloc_call Pinned_arena (n * sizeof_T))
                   (w\<lparr>host_mem := (fresh_ptr (host_mem w), take (unat (n * sizeof_T)) sb) # host_mem w,
                      pinned := fresh_ptr (host_mem w) # pinned w\<rparr>)),
                \<lparr>d_data = nullptr, h_data = fresh_ptr (host_mem w)\<rparr>)"
  using assms(1,4) memcpy_into_fresh [OF assms(2,3)]
  by (simp add: AsyncArray_from_host_def alloc_pinned Let_def)

lemma from_host_async:
  assumes "n \<noteq> 0" and "map_of (host_mem w) h_p = Some sb"
    and "unat (n * sizeof_T) \<le> length sb" and "in_launch_region be w"
  shows "AsyncArray_from_host be sizeof_T h_p n w =
           Inr (htod_memcpy_async (fresh_ptr (dev_mem w)) (fresh_ptr (host_mem w)) (n * sizeof_T)
                 (log_call (Alloc_call Device_arena (n * sizeof_T))
                   (log_call (Memcpy_call (fresh_ptr (host_mem w)) h_p (n * sizeof_T))
                     (log_call (Alloc_call Pinned_arena (n * sizeof_T))
                       (w\<lparr>host_mem := (fresh_ptr (host_mem w), take (unat (n * sizeof_T)) sb) # host_mem w,
                          pinned := fresh_ptr (host_mem w) # pinned w,
                          dev_mem := (fresh_ptr (dev_mem w), replicate (unat (n * sizeof_T)) None) # dev_mem w\<rparr>)))),
                \<lparr>d_data = fresh_ptr (dev_mem w), h_data = fresh_ptr (host_mem w)\<rparr>)"
  using assms(1,4) memcpy_into_fresh [OF assms(2,3)]
  by (simp add: AsyncArray_from_host_def alloc_pinned alloc_device Let_def log_call_def)

lemma free_null:
  "arena_free P nullptr w = Inr (log_call (Free_call P nullptr) w)"
  by (simp add: arena_free_def)

lemma clear_empty:
  "clear be empty_array w =
     Inr (if in_launch_region be w then w else log_call (Free_call Pinned_arena nullptr) w,
          empty_array)"
  by (simp add: clear_def empty_array_def free_null)

lemma clear_result_empty:
  "clear be a w = Inr (w', a') \<Longrightarrow> a' = empty_array"
  by (auto simp: clear_def empty_array_def split: sum.splits)

lemma data_empty: "data empty_array = nullptr"
  by (simp add: data_def empty_array_def)

lemma arena_free_calls:
  "arena_free P p w = Inr w' \<Longrightarrow> calls w' = calls w @ [Free_call P p]"
  by (auto simp: arena_free_def Let_def split: if_splits pool.splits)

lemma exec_work_calls:
  "exec_work it w = Inr w' \<Longrightarrow> \<exists>cs. calls w' = calls w @ cs \<and> list_all is_free_call cs"
  by (cases it)
    (auto simp: exec_work_def is_free_call_def split: option.splits if_splits sum.splits
      dest!: arena_free_calls)

lemma run_stream_calls:
  "run_stream q w = Inr w' \<Longrightarrow> \<exists>cs. calls w' = calls w @ cs \<and> list_all is_free_call cs"
proof (induction q arbitrary: w)
  case Nil
  then show ?case by simp
next
  case (Cons it q)
  from Cons.prems obtain w1 where e: "exec_work it w = Inr w1" and r: "run_stream q w1 = Inr w'"
    by (auto split: sum.splits)
  from exec_work_calls [OF e] obtain cs1 where c1: "calls w1 = calls w @ cs1" "list_all is_free_call cs1"
    by blast
  from Cons.IH [OF r] obtain cs2 where c2: "calls w' = calls w1 @ cs2" "list_all is_free_call cs2"
    by blast
  from c1 c2 have "calls w' = calls w @ (cs1 @ cs2) \<and> list_all is_free_call (cs1 @ cs2)"
    by simp
  then show ?case by blast
qed

lemma buffer_state_no_gpu:
  "buffer_state be n a \<Longrightarrow> \<not> AMREX_USE_GPU be \<Longrightarrow> d_data a = nullptr"
proof (induction rule: buffer_state.induct)
  case (constructed_from_host sizeof_T h_p w w' a)
  then show ?case
    by (auto simp: AsyncArray_from_host_def in_launch_region_def empty_array_def Let_def
        split: if_splits sum.splits prod.splits)
next
  case (constructed_uninit sizeof_T w w' a)
  then show ?case
    by (auto simp: AsyncArray_uninit_def in_launch_region_def empty_array_def Let_def
        split: if_splits prod.splits)
next
  case (cleared a w w' a')
  then show ?case
    using clear_result_empty [of be a w w' a'] by (simp add: empty_array_def)
qed

lemma memcpy_reads_host:
  assumes "memcpy dst src nb w = Inr w'"
  shows "\<exists>sb db. map_of (host_mem w) src = Some sb \<and> map_of (host_mem w) dst = Some db \<and>
           w' = log_call (Memcpy_call dst src nb)
                  (w\<lparr>host_mem := store dst (copy_bytes (unat nb) sb db) (host_mem w)\<rparr>)"
  using assms by (auto simp: memcpy_def split: option.splits if_splits)

lemma is_block_store [simp]: "is_block (store p b m) q = is_block m q"
  by (induction m) (auto simp: is_block_def store_def)

lemma is_block_Nil [simp]: "\<not> is_block [] q"
  by (simp add: is_block_def)

lemma is_block_Cons [simp]: "is_block (e # m) q = (q = fst e \<or> is_block m q)"
  by (cases e) (auto simp: is_block_def)

lemma is_block_discard [simp]: "is_block (discard p m) q = (q \<noteq> p \<and> is_block m q)"
  by (induction m) (auto simp: discard_def)

lemma memcpy_frame:
  assumes "memcpy dst src nb w = Inr w'"
  shows "launch_region w' = launch_region w \<and> pinned w' = pinned w \<and> dev_mem w' = dev_mem w \<and>
         stream w' = stream w \<and> calls w' = calls w @ [Memcpy_call dst src nb] \<and>
         is_block (host_mem w') p = is_block (host_mem w) p"
  using memcpy_reads_host [OF assms] by auto

lemma from_host_result:
  assumes "AsyncArray_from_host be sizeof_T h_p n w = Inr (w', a)" and "n \<noteq> 0"
  shows "launch_region w' = launch_region w \<and>
         h_data a = fresh_ptr (host_mem w) \<and> pinned w' = h_data a # pinned w \<and>
         is_block (host_mem w') (h_data a) \<and>
         (if in_launch_region be w
          then d_data a = fresh_ptr (dev_mem w) \<and> is_block (dev_mem w') (d_data a)
          else d_data a = nullptr \<and> dev_mem w' = dev_mem w \<and> stream w' = stream w)"
proof -
  let ?nb = "n * sizeof_T"
  let ?h = "fresh_ptr (host_mem w)"
  let ?w1 = "snd (arena_alloc Pinned_arena ?nb w)"
  from assms obtain w2 where m: "memcpy ?h h_p ?nb ?w1 = Inr w2"
    by (auto simp: AsyncArray_from_host_def alloc_pinned Let_def split: sum.splits)
  note f = memcpy_frame [OF m]
  have w2: "launch_region w2 = launch_region w" "pinned w2 = ?h # pinned w"
    "dev_mem w2 = dev_mem w" "stream w2 = stream w" "is_block (host_mem w2) ?h"
    using f [of ?h] by (simp_all add: alloc_pinned)
  have ilr: "in_launch_region be w2 = in_launch_region be w"
    using w2(1) by (simp add: in_launch_region_def)
  show ?thesis
  proof (cases "in_launch_region be w")
    case True
    with assms m ilr w2 show ?thesis
      by (auto simp: AsyncArray_from_host_def alloc_pinned alloc_device Let_def
          htod_memcpy_async_def)
  next
    case False
    with assms m ilr w2 show ?thesis
      by (auto simp: AsyncArray_from_host_def alloc_pinned Let_def)
  qed
qed

lemma uninit_result:
  assumes "AsyncArray_uninit be sizeof_T n w = Inr (w', a)" and "n \<noteq> 0"
  shows "launch_region w' = launch_region w \<and> stream w' = stream w \<and>
         (if in_launch_region be w
          then d_data a = fresh_ptr (dev_mem w) \<and> h_data a = nullptr \<and>
               is_block (dev_mem w') (d_data a) \<and> pinned w' = pinned w \<and> host_mem w' = host_mem w
          else d_data a = nullptr \<and> h_data a = fresh_ptr (host_mem w) \<and>
               pinned w' = h_data a # pinned w \<and> is_block (host_mem w') (h_data a) \<and>
               dev_mem w' = dev_mem w)"
  using assms by (auto simp: AsyncArray_uninit_def alloc_pinned alloc_device split: if_splits)

lemma fresh_ptr_neq_null [simp]: "fresh_ptr m \<noteq> nullptr"
  using fresh_ptr_pos [of m] by simp

lemma buffer_state_zero:
  "buffer_state be n a \<Longrightarrow> n = 0 \<Longrightarrow> a = empty_array"
proof (induction rule: buffer_state.induct)
  case (constructed_from_host sizeof_T h_p w w' a)
  then show ?case by (simp add: AsyncArray_from_host_def)
next
  case (constructed_uninit sizeof_T w w' a)
  then show ?case by (simp add: AsyncArray_uninit_def)
next
  case (cleared a w w' a')
  then show ?case using clear_result_empty by blast
qed

lemma clear_sync:
  "\<not> in_launch_region be w \<Longrightarrow>
   clear be a w = (case arena_free Pinned_arena (h_data a) w of
                     Inl e \<Rightarrow> Inl e | Inr w' \<Rightarrow> Inr (w', empty_array))"
  by (cases "arena_free Pinned_arena (h_data a) w") (simp_all add: clear_def empty_array_def)

lemma clear_async_no_device:
  "in_launch_region be w \<Longrightarrow> d_data a = nullptr \<Longrightarrow> clear be a w = Inr (w, empty_array)"
  by (simp add: clear_def empty_array_def)

lemma free_pinned_live:
  "p \<in> set (pinned w) \<Longrightarrow> is_block (host_mem w) p \<Longrightarrow>
   arena_free Pinned_arena p w =
     Inr (log_call (Free_call Pinned_arena p)
           (if p = nullptr then w
            else w\<lparr>host_mem := discard p (host_mem w), pinned := removeAll p (pinned w)\<rparr>))"
  by (simp add: arena_free_def Let_def log_call_def)

lemma run_stream_append:
  "run_stream (q @ [r]) w = (case run_stream q w of Inl e \<Rightarrow> Inl e | Inr w' \<Rightarrow> exec_work r w')"
  by (induction q arbitrary: w) (auto split: sum.splits)

lemma arena_free_frame:
  "arena_free P p w = Inr w' \<Longrightarrow>
   stream w' = stream w \<and> launch_region w' = launch_region w \<and>
   registration_fails w' = registration_fails w"
  by (auto simp: arena_free_def Let_def log_call_def split: if_splits pool.splits)

lemma exec_work_stream:
  "exec_work it w = Inr w' \<Longrightarrow> stream w' = stream w"
  by (cases it)
    (auto simp: exec_work_def split: option.splits if_splits sum.splits dest!: arena_free_frame)

lemma run_stream_stream:
  "run_stream q w = Inr w' \<Longrightarrow> stream w' = stream w"
  by (induction q arbitrary: w) (auto split: sum.splits dest!: exec_work_stream)

lemma arena_free_keeps_block:
  "arena_free P p w = Inr w' \<Longrightarrow> is_block (dev_mem w) d \<Longrightarrow> \<not> (P = Device_arena \<and> p = d) \<Longrightarrow>
   is_block (dev_mem w') d"
  by (auto simp: arena_free_def Let_def log_call_def split: if_splits pool.splits)

lemma exec_work_keeps_block:
  assumes "exec_work it w = Inr w'" and "is_block (dev_mem w) d" and "\<not> releases d it"
  shows "is_block (dev_mem w') d"
proof (cases it)
  case (Htod_copy dst src nb)
  with assms show ?thesis
    by (auto simp: exec_work_def split: option.splits if_splits)
next
  case (Release d' h')
  with assms obtain w1 where f1: "arena_free Device_arena d' w = Inr w1"
    and f2: "arena_free Pinned_arena h' w1 = Inr w'"
    by (auto simp: exec_work_def split: sum.splits)
  from Release assms(3) have "d' \<noteq> d"
    by (simp add: releases_def)
  then have "is_block (dev_mem w1) d"
    using arena_free_keeps_block [OF f1 assms(2)] by simp
  then show ?thesis
    using arena_free_keeps_block [OF f2] by simp
next
  case (Device_work ps)
  with assms show ?thesis
    by (auto simp: exec_work_def split: if_splits)
qed

lemma stream_progress_before_release:
  "stream w = q @ [r] \<Longrightarrow> k \<le> length q \<Longrightarrow> stream_progress k w = Inr wk \<Longrightarrow>
   stream wk = drop k q @ [r] \<and>
   (is_block (dev_mem w) d \<and> \<not> list_ex (releases d) q \<longrightarrow> is_block (dev_mem wk) d)"
proof (induction k arbitrary: w q)
  case 0
  then show ?case by simp
next
  case (Suc k)
  from Suc.prems(2) obtain it q' where q: "q = it # q'"
    by (cases q) auto
  with Suc.prems obtain w1 where
    e: "exec_work it (w\<lparr>stream := q' @ [r]\<rparr>) = Inr w1" and p: "stream_progress k w1 = Inr wk"
    by (auto split: sum.splits)
  from exec_work_stream [OF e] have s1: "stream w1 = q' @ [r]"
    by simp
  from Suc.prems(2) q have k: "k \<le> length q'"
    by simp
  note ih = Suc.IH [OF s1 k p]
  have "is_block (dev_mem w) d \<and> \<not> list_ex (releases d) q \<longrightarrow>
        is_block (dev_mem w1) d \<and> \<not> list_ex (releases d) q'"
    using exec_work_keeps_block [OF e, of d] q by auto
  with ih q show ?case by auto
qed

lemma clear_registers:
  assumes "in_launch_region be w" and "d_data a \<noteq> nullptr" and "be \<noteq> Sycl_no_host_task"
  shows "clear be a w =
           (if registration_fails w then Inl Abort
            else Inr (log_call (Register_release_call (d_data a) (h_data a))
                       (w\<lparr>stream := stream w @ [Release (d_data a) (h_data a)]\<rparr>),
                      empty_array))"
  using assms
  by (cases be)
    (simp_all add: clear_def register_release_def empty_array_def in_launch_region_def
      AMREX_USE_GPU_def)

lemma free_device_live:
  "is_block (dev_mem w) p \<Longrightarrow> p \<noteq> nullptr \<Longrightarrow>
   arena_free Device_arena p w =
     Inr (log_call (Free_call Device_arena p) (w\<lparr>dev_mem := discard p (dev_mem w)\<rparr>))"
  by (simp add: arena_free_def Let_def log_call_def)

lemma clear_sycl_unfold:
  assumes "in_launch_region Sycl_no_host_task w" and "d_data a \<noteq> nullptr"
  shows "clear Sycl_no_host_task a w =
           (case run_stream (stream w) (log_call Stream_synchronize_call (w\<lparr>stream := []\<rparr>)) of
              Inl e \<Rightarrow> Inl e
            | Inr wq \<Rightarrow>
                (case arena_free Device_arena (d_data a) wq of
                   Inl e \<Rightarrow> Inl e
                 | Inr w2 \<Rightarrow>
                     (case arena_free Pinned_arena (h_data a) w2 of
                        Inl e \<Rightarrow> Inl e
                      | Inr w3 \<Rightarrow> Inr (w3, empty_array))))"
  using assms
  by (simp add: clear_def streamSynchronize_def empty_array_def split: sum.splits)

lemma clear_sycl_total:
  assumes ilr: "in_launch_region Sycl_no_host_task w" and d: "d_data a \<noteq> nullptr"
    and run: "run_stream (stream w) (log_call Stream_synchronize_call (w\<lparr>stream := []\<rparr>)) = Inr wq"
    and live: "owns_live a wq"
  shows "\<exists>w' cs. clear Sycl_no_host_task a w = Inr (w', empty_array) \<and> stream w' = [] \<and>
           dev_mem w' = discard (d_data a) (dev_mem wq) \<and>
           calls w' = calls w @ Stream_synchronize_call # cs @
             [Free_call Device_arena (d_data a), Free_call Pinned_arena (h_data a)] \<and>
           list_all is_free_call cs"
proof -
  let ?w2 = "log_call (Free_call Device_arena (d_data a))
               (wq\<lparr>dev_mem := discard (d_data a) (dev_mem wq)\<rparr>)"
  from live d have blk: "is_block (dev_mem wq) (d_data a)"
    by (simp add: owns_live_def)
  have f1: "arena_free Device_arena (d_data a) wq = Inr ?w2"
    using free_device_live [OF blk d] .
  from live have "h_data a = nullptr \<or>
      (h_data a \<in> set (pinned ?w2) \<and> is_block (host_mem ?w2) (h_data a))"
    by (simp add: owns_live_def)
  then obtain w3 where f2: "arena_free Pinned_arena (h_data a) ?w2 = Inr w3"
    and dm: "dev_mem w3 = dev_mem ?w2"
    by (auto simp: free_null free_pinned_live)
  have cl: "clear Sycl_no_host_task a w = Inr (w3, empty_array)"
    using run f1 f2 by (simp add: clear_sycl_unfold [OF ilr d])
  from run_stream_calls [OF run] obtain cs where
    cs: "calls wq = calls w @ Stream_synchronize_call # cs" "list_all is_free_call cs"
    by auto
  have st: "stream w3 = []"
    using run_stream_stream [OF run] arena_free_frame [OF f1] arena_free_frame [OF f2] by simp
  have c: "calls w3 = calls w @ Stream_synchronize_call # cs @
          [Free_call Device_arena (d_data a), Free_call Pinned_arena (h_data a)]"
    using cs arena_free_calls [OF f1] arena_free_calls [OF f2] by simp
  have dm': "dev_mem w3 = discard (d_data a) (dev_mem wq)"
    using dm by simp
  from cl st dm' c cs(2) show ?thesis by blast
qed

text \<open>Work that runs in a world still runs, with the same effect, when the world has two more blocks.\<close>

lemma store_other: "p \<noteq> q \<Longrightarrow> store p b ((q, c) # m) = (q, c) # store p b m"
  by (simp add: store_def)

lemma discard_other: "p \<noteq> q \<Longrightarrow> discard p ((q, c) # m) = (q, c) # discard p m"
  by (simp add: discard_def)

lemma map_of_store:
  "map_of (store p b m) q = (if q = p \<and> is_block m p then Some b else map_of m q)"
  by (induction m) (auto simp: store_def is_block_def)

lemma map_of_discard: "q \<noteq> p \<Longrightarrow> map_of (discard p m) q = map_of m q"
  by (induction m) (auto simp: discard_def)

lemma is_block_map_of: "map_of m p = Some b \<Longrightarrow> is_block m p"
  by (simp add: is_block_def)

lemma arena_free_extends:
  assumes "extends_by h hb d db w wx" and "arena_free P p w = Inr w'"
  shows "\<exists>wx'. arena_free P p wx = Inr wx' \<and> extends_by h hb d db w' wx'"
proof (cases "p = nullptr")
  case True
  with assms show ?thesis
    by (auto simp: free_null extends_by_def)
next
  case False
  show ?thesis
  proof (cases P)
    case Pinned_arena
    with assms False have live: "p \<in> set (pinned w)" "is_block (host_mem w) p"
      by (auto simp: arena_free_def Let_def split: if_splits)
    with assms(1) have ne: "p \<noteq> h"
      by (auto simp: extends_by_def)
    from assms False Pinned_arena live ne show ?thesis
      by (auto simp: arena_free_def Let_def extends_by_def discard_other)
  next
    case Device_arena
    with assms False have live: "is_block (dev_mem w) p"
      by (auto simp: arena_free_def Let_def split: if_splits)
    with assms(1) have ne: "p \<noteq> d"
      by (auto simp: extends_by_def)
    from assms False Device_arena live ne show ?thesis
      by (auto simp: arena_free_def Let_def extends_by_def discard_other)
  qed
qed

lemma exec_work_extends:
  assumes ext: "extends_by h hb d db w wx" and ex: "exec_work it w = Inr w'"
  shows "\<exists>wx'. exec_work it wx = Inr wx' \<and> extends_by h hb d db w' wx'"
proof (cases it)
  case (Htod_copy dst src nb)
  with ex obtain tb sb where
    blocks: "map_of (dev_mem w) dst = Some tb" "map_of (host_mem w) src = Some sb" and
    len: "unat nb \<le> length sb" "unat nb \<le> length tb" and
    w': "w' = w\<lparr>dev_mem := store dst (copy_bytes (unat nb) sb tb) (dev_mem w)\<rparr>"
    by (auto simp: exec_work_def split: option.splits if_splits)
  from ext blocks have ne: "dst \<noteq> d" "src \<noteq> h"
    by (auto simp: extends_by_def is_block_def)
  let ?wx' = "wx\<lparr>dev_mem := store dst (copy_bytes (unat nb) sb tb) (dev_mem wx)\<rparr>"
  have "exec_work it wx = Inr ?wx'"
    using ext blocks len ne Htod_copy by (simp add: exec_work_def extends_by_def)
  moreover have "extends_by h hb d db w' ?wx'"
    using ext ne by (simp add: extends_by_def w' store_other)
  ultimately show ?thesis by blast
next
  case (Release d' h')
  with ex obtain w1 where f1: "arena_free Device_arena d' w = Inr w1"
    and f2: "arena_free Pinned_arena h' w1 = Inr w'"
    by (auto simp: exec_work_def split: sum.splits)
  from arena_free_extends [OF ext f1] obtain wx1 where
    g1: "arena_free Device_arena d' wx = Inr wx1" and e1: "extends_by h hb d db w1 wx1"
    by blast
  from arena_free_extends [OF e1 f2] obtain wx' where
    g2: "arena_free Pinned_arena h' wx1 = Inr wx'" and e2: "extends_by h hb d db w' wx'"
    by blast
  from g1 g2 Release have "exec_work it wx = Inr wx'"
    by (simp add: exec_work_def)
  with e2 show ?thesis by blast
next
  case (Device_work ps)
  with ex have ok: "list_all (is_block (dev_mem w)) ps" and w': "w' = w"
    by (auto simp: exec_work_def split: if_splits)
  from ok ext have "list_all (is_block (dev_mem wx)) ps"
    by (auto simp: extends_by_def list_all_iff)
  with Device_work have "exec_work it wx = Inr wx"
    by (simp add: exec_work_def)
  with ext w' show ?thesis by blast
qed

lemma run_stream_extends:
  "extends_by h hb d db w wx \<Longrightarrow> run_stream q w = Inr w' \<Longrightarrow>
   \<exists>wx'. run_stream q wx = Inr wx' \<and> extends_by h hb d db w' wx'"
proof (induction q arbitrary: w wx)
  case Nil
  then show ?case by simp
next
  case (Cons it q)
  from Cons.prems(2) obtain w1 where e: "exec_work it w = Inr w1" and r: "run_stream q w1 = Inr w'"
    by (auto split: sum.splits)
  from exec_work_extends [OF Cons.prems(1) e] obtain wx1 where
    ex: "exec_work it wx = Inr wx1" and ext: "extends_by h hb d db w1 wx1"
    by blast
  from Cons.IH [OF ext r] obtain wx' where
    "run_stream q wx1 = Inr wx'" "extends_by h hb d db w' wx'"
    by blast
  with ex show ?case by auto
qed

text \<open>Pending work leaves a host block alone unless it releases it.\<close>

lemma arena_free_host_block:
  "arena_free P p w = Inr w' \<Longrightarrow> \<not> (P = Pinned_arena \<and> p = q) \<Longrightarrow>
   map_of (host_mem w') q = map_of (host_mem w) q"
  by (auto simp: arena_free_def Let_def map_of_discard split: if_splits pool.splits)

lemma exec_work_host_block:
  assumes "exec_work it w = Inr w'" and "\<not> releases_host q it"
  shows "map_of (host_mem w') q = map_of (host_mem w) q"
proof (cases it)
  case (Htod_copy dst src nb)
  with assms show ?thesis
    by (auto simp: exec_work_def split: option.splits if_splits)
next
  case (Release d' h')
  with assms obtain w1 where f1: "arena_free Device_arena d' w = Inr w1"
    and f2: "arena_free Pinned_arena h' w1 = Inr w'"
    by (auto simp: exec_work_def split: sum.splits)
  from Release assms(2) have "h' \<noteq> q"
    by (simp add: releases_host_def)
  then show ?thesis
    using arena_free_host_block [OF f1, of q] arena_free_host_block [OF f2, of q] by simp
next
  case (Device_work ps)
  with assms show ?thesis
    by (auto simp: exec_work_def split: if_splits)
qed

lemma run_stream_host_block:
  "run_stream q w = Inr w' \<Longrightarrow> \<not> list_ex (releases_host p) q \<Longrightarrow>
   map_of (host_mem w') p = map_of (host_mem w) p"
proof (induction q arbitrary: w)
  case Nil
  then show ?case by simp
next
  case (Cons it q)
  from Cons.prems(1) obtain w1 where e: "exec_work it w = Inr w1" and r: "run_stream q w1 = Inr w'"
    by (auto split: sum.splits)
  from Cons.prems(2) have "\<not> releases_host p it" "\<not> list_ex (releases_host p) q"
    by simp_all
  with exec_work_host_block [OF e] Cons.IH [OF r] show ?case by simp
qed

lemma copy_bytes_all: "length sb = k \<Longrightarrow> length db = k \<Longrightarrow> copy_bytes k sb db = sb"
  by (simp add: copy_bytes_def)

lemma memcpy_ok:
  assumes "map_of (host_mem w) dst = Some db" and "map_of (host_mem w) src = Some sb"
    and "unat nb \<le> length sb" and "unat nb \<le> length db" and "dst \<noteq> src"
  shows "memcpy dst src nb w =
           Inr (log_call (Memcpy_call dst src nb)
                 (w\<lparr>host_mem := store dst (copy_bytes (unat nb) sb db) (host_mem w)\<rparr>))"
  using assms by (simp add: memcpy_def)

lemma dtoh_memcpy_ok:
  assumes "run_stream (stream w) (log_call (Dtoh_memcpy_call dst src nb) (w\<lparr>stream := []\<rparr>)) = Inr wq"
    and "map_of (host_mem wq) dst = Some db" and "map_of (dev_mem wq) src = Some sb"
    and "unat nb \<le> length sb" and "unat nb \<le> length db"
  shows "dtoh_memcpy dst src nb w =
           Inr (wq\<lparr>host_mem := store dst (copy_bytes (unat nb) sb db) (host_mem wq)\<rparr>)"
  using assms by (simp add: dtoh_memcpy_def)

lemma exec_htod_ok:
  assumes "map_of (dev_mem w) dst = Some db" and "map_of (host_mem w) src = Some sb"
    and "unat nb \<le> length sb" and "unat nb \<le> length db"
  shows "exec_work (Htod_copy dst src nb) w =
           Inr (w\<lparr>dev_mem := store dst (copy_bytes (unat nb) sb db) (dev_mem w)\<rparr>)"
  using assms by (simp add: exec_work_def)

lemma nbytes_exact:
  fixes n sizeof_T :: size_t
  shows "unat n * unat sizeof_T < 2 ^ 64 \<Longrightarrow> unat (n * sizeof_T) = unat n * unat sizeof_T"
  using unat_mult_lem [of n sizeof_T] by simp

lemma replicate_four: "replicate 4 x = [x, x, x, x]"
  by (simp add: numeral_eq_Suc)

section \<open>Properties\<close>

subsection \<open>Copying back from a buffer that holds nothing\<close>

text \<open>
  C10. On a buffer whose device and host pointers are both null, \<open>copyToHost\<close> returns
  with the world exactly as it found it, for every count (zero or not), every destination
  and every configuration: no copy is made, no block is looked up, nothing is logged.
\<close>

theorem copyToHost_null_noop:
  "copyToHost be sizeof_T \<lparr>d_data = nullptr, h_data = nullptr\<rparr> h_p n w = Inr w"
  by (simp add: copyToHost_def)

subsection \<open>The uninitialized-allocation constructor\<close>

text \<open>
  C5. With \<open>n > 0\<close> the constructor \<open>AsyncArray(n)\<close> returns, and the calls it adds to the
  log are exactly one \<open>alloc\<close> of \<open>n*sizeof(T)\<close> bytes (the \<open>std::size_t\<close> product): on the
  device arena when \<open>inLaunchRegion()\<close> holds in a GPU build, leaving host memory and the
  pinned arena as they were; on the pinned arena otherwise, leaving device memory as it
  was.
\<close>

theorem uninit_allocates_one_pool:
  assumes "n \<noteq> 0"
  shows "\<exists>w' a. AsyncArray_uninit be sizeof_T n w = Inr (w', a) \<and>
           calls w' = calls w @ [Alloc_call (if in_launch_region be w then Device_arena else Pinned_arena) (n * sizeof_T)] \<and>
           (if in_launch_region be w
            then host_mem w' = host_mem w \<and> pinned w' = pinned w \<and>
                 dev_mem w' = (d_data a, replicate (unat (n * sizeof_T)) None) # dev_mem w
            else dev_mem w' = dev_mem w \<and> pinned w' = h_data a # pinned w \<and>
                 host_mem w' = (h_data a, replicate (unat (n * sizeof_T)) None) # host_mem w)"
  using assms by (simp add: AsyncArray_uninit_def arena_alloc_def Let_def)

theorem uninit_allocates_one_pool_witness:
  "\<exists>w' a. AsyncArray_uninit No_gpu 4 100 sync_world = Inr (w', a) \<and>
     calls w' = [Alloc_call Pinned_arena 400] \<and> dev_mem w' = [] \<and> pinned w' = [h_data a]"
  using uninit_allocates_one_pool [of 100 No_gpu 4 sync_world]
  by (auto simp: sync_world_def in_launch_region_def AMREX_USE_GPU_def)

subsection \<open>The constructor from a host source\<close>

text \<open>
  C6. With \<open>n > 0\<close> and a source block of at least \<open>n*sizeof(T)\<close> bytes, the constructor
  \<open>AsyncArray(h_p, n)\<close> returns; it allocates \<open>n*sizeof(T)\<close> bytes from the pinned arena
  and the new block holds the first \<open>n*sizeof(T)\<close> bytes of the source when it returns.
  In the launch region it also allocates \<open>n*sizeof(T)\<close> bytes from the device arena and
  enqueues the host-to-device copy at the end of the stream, without synchronizing: the
  device block is still indeterminate, and both pointers are set. Outside the launch
  region only the host pointer is set, and the device arena and the stream are untouched.
\<close>

theorem from_host_allocates_and_copies:
  assumes "n \<noteq> 0"
    and "map_of (host_mem w) h_p = Some sb"
    and "unat (n * sizeof_T) \<le> length sb"
  shows "\<exists>w' a. AsyncArray_from_host be sizeof_T h_p n w = Inr (w', a) \<and>
           h_data a = fresh_ptr (host_mem w) \<and> h_data a \<noteq> nullptr \<and>
           pinned w' = h_data a # pinned w \<and>
           host_mem w' = (h_data a, take (unat (n * sizeof_T)) sb) # host_mem w \<and>
           (if in_launch_region be w
            then d_data a = fresh_ptr (dev_mem w) \<and> d_data a \<noteq> nullptr \<and>
                 calls w' = calls w @
                   [Alloc_call Pinned_arena (n * sizeof_T),
                    Memcpy_call (h_data a) h_p (n * sizeof_T),
                    Alloc_call Device_arena (n * sizeof_T),
                    Htod_memcpy_async_call (d_data a) (h_data a) (n * sizeof_T)] \<and>
                 stream w' = stream w @ [Htod_copy (d_data a) (h_data a) (n * sizeof_T)] \<and>
                 dev_mem w' = (d_data a, replicate (unat (n * sizeof_T)) None) # dev_mem w
            else d_data a = nullptr \<and>
                 calls w' = calls w @
                   [Alloc_call Pinned_arena (n * sizeof_T),
                    Memcpy_call (h_data a) h_p (n * sizeof_T)] \<and>
                 stream w' = stream w \<and> dev_mem w' = dev_mem w)"
proof (cases "in_launch_region be w")
  case True
  show ?thesis
    using True fresh_ptr_pos [of "host_mem w"] fresh_ptr_pos [of "dev_mem w"]
    by (simp add: from_host_async [OF assms True] htod_memcpy_async_def)
next
  case False
  show ?thesis
    using False fresh_ptr_pos [of "host_mem w"]
    by (simp add: from_host_sync [OF assms False])
qed

theorem from_host_allocates_and_copies_witness:
  "\<exists>w' a. AsyncArray_from_host Cuda 1 1 4 async_world = Inr (w', a) \<and>
     h_data a = 3 \<and> d_data a = 1 \<and>
     map_of (host_mem w') 3 = Some [Some 1, Some 2, Some 3, Some 4] \<and>
     stream w' = [Htod_copy 1 3 4] \<and>
     calls w' = [Alloc_call Pinned_arena 4, Memcpy_call 3 1 4, Alloc_call Device_arena 4,
                 Htod_memcpy_async_call 1 3 4]"
  using from_host_allocates_and_copies [of 4 async_world 1 "[Some 1, Some 2, Some 3, Some 4]" 1 Cuda]
  by (auto simp: async_world_def sync_world_def in_launch_region_def AMREX_USE_GPU_def)

subsection \<open>Operations with count zero\<close>

text \<open>
  C4, as the code has it. For \<open>n = 0\<close> both constructors return the empty buffer and leave
  the world untouched (no \<open>alloc\<close>); \<open>data\<close> of the empty buffer is null; \<open>copyToHost\<close> with
  count 0 leaves the world untouched for any buffer. \<open>clear\<close> on the empty buffer makes no
  \<open>alloc\<close> call and releases nothing: memory, both arenas and the stream are unchanged.
  In the launch region it makes no call at all; outside it (and in every build without
  GPU support) it makes exactly one call, \<open>free(nullptr)\<close> on the pinned arena.
\<close>

theorem empty_buffer_operations:
  "AsyncArray_from_host be sizeof_T h_p 0 w = Inr (w, empty_array) \<and>
   AsyncArray_uninit be sizeof_T 0 w = Inr (w, empty_array) \<and>
   data empty_array = nullptr \<and>
   copyToHost be sizeof_T a h_p 0 w = Inr w \<and>
   (\<exists>w'. clear be empty_array w = Inr (w', empty_array) \<and>
         host_mem w' = host_mem w \<and> pinned w' = pinned w \<and> dev_mem w' = dev_mem w \<and>
         stream w' = stream w \<and>
         calls w' = (if in_launch_region be w then calls w
                     else calls w @ [Free_call Pinned_arena nullptr]))"
  by (simp add: AsyncArray_from_host_def AsyncArray_uninit_def data_empty copyToHost_def
      clear_empty)

text \<open>
  The claim as stated fails: built without GPU support, \<open>clear\<close> on the buffer that
  \<open>AsyncArray(0)\<close> returned calls \<open>The_Pinned_Arena()->free\<close> (with a null argument).
\<close>

theorem clear_empty_free_call_counterexample:
  "AsyncArray_uninit No_gpu 8 0 sync_world = Inr (sync_world, empty_array) \<and>
   clear No_gpu empty_array sync_world =
     Inr (sync_world\<lparr>calls := [Free_call Pinned_arena nullptr]\<rparr>, empty_array)"
  by (simp add: AsyncArray_uninit_def clear_empty in_launch_region_def AMREX_USE_GPU_def
      log_call_def sync_world_def)

subsection \<open>After \<open>clear\<close>\<close>

text \<open>
  C8. When \<open>clear\<close> returns, both pointers of the buffer are null and \<open>data\<close> is null; this
  is a fact about the buffer alone, whatever the stream has done since. A further
  \<open>clear\<close>, in any later world \<open>w2\<close> (the release may or may not have run), returns the same
  empty buffer and releases nothing: memory, both arenas and the stream are as before,
  and the only call it can add is \<open>free(nullptr)\<close> on the pinned arena, so no pointer the
  buffer owned is freed again.
\<close>

theorem clear_nulls_pointers_and_repeats_safely:
  assumes "clear be a w = Inr (w', a')"
  shows "d_data a' = nullptr \<and> h_data a' = nullptr \<and> data a' = nullptr \<and>
         (\<exists>w3. clear be a' w2 = Inr (w3, a') \<and>
               host_mem w3 = host_mem w2 \<and> pinned w3 = pinned w2 \<and>
               dev_mem w3 = dev_mem w2 \<and> stream w3 = stream w2 \<and>
               calls w3 = (if in_launch_region be w2 then calls w2
                           else calls w2 @ [Free_call Pinned_arena nullptr]))"
  using clear_result_empty [OF assms]
  by (simp add: clear_empty data_empty) (simp add: empty_array_def)

theorem clear_nulls_pointers_and_repeats_safely_witness:
  "d_data empty_array = nullptr \<and> h_data empty_array = nullptr \<and> data empty_array = nullptr \<and>
   (\<exists>w3. clear Cuda empty_array
            (log_call (Register_release_call 1 3)
               (staged_world\<lparr>stream := [Htod_copy 1 3 4, Release 1 3]\<rparr>)) = Inr (w3, empty_array) \<and>
         pinned w3 = [3] \<and> dev_mem w3 = [(1, [None, None, None, None])] \<and>
         stream w3 = [Htod_copy 1 3 4, Release 1 3] \<and>
         calls w3 = calls staged_world @ [Register_release_call 1 3])"
proof -
  have c: "clear Cuda \<lparr>d_data = 1, h_data = 3\<rparr> staged_world =
             Inr (log_call (Register_release_call 1 3)
                    (staged_world\<lparr>stream := [Htod_copy 1 3 4, Release 1 3]\<rparr>), empty_array)"
    by (simp add: clear_def register_release_def in_launch_region_def AMREX_USE_GPU_def
        staged_world_def empty_array_def)
  show ?thesis
    using clear_nulls_pointers_and_repeats_safely [OF c,
        of "log_call (Register_release_call 1 3)
              (staged_world\<lparr>stream := [Htod_copy 1 3 4, Release 1 3]\<rparr>)"]
    by (auto simp: in_launch_region_def AMREX_USE_GPU_def staged_world_def)
qed

subsection \<open>Which allocation the accessors use\<close>

text \<open>
  C7. For every buffer state the class can reach, \<open>data\<close> is the device pointer when that
  is not null and the host pointer otherwise (so null when both are). \<open>copyToHost\<close> is, for
  every count, destination and world: nothing when the count is 0; otherwise the
  device-to-host copy from the device block when the device pointer is not null;
  otherwise one \<open>memcpy\<close> from the host block when the host pointer is not null; otherwise
  nothing. So with a nonzero count and the device pointer set, once the pending stream
  work completes with the device block and the destination both at least \<open>n*sizeof(T)\<close>
  bytes long, \<open>copyToHost\<close> returns and the destination has received the device block's
  bytes; with only the host pointer set and the host block and a distinct destination
  both long enough, it returns having copied the host block's bytes. In a build without
  GPU support the test of the device pointer is not compiled, and there the device
  pointer of a reachable buffer is always null.
\<close>

theorem accessors_prefer_device:
  assumes "buffer_state be n0 a"
  shows "data a = (if d_data a \<noteq> nullptr then d_data a else h_data a) \<and>
         (d_data a = nullptr \<and> h_data a = nullptr \<longrightarrow> data a = nullptr) \<and>
         copyToHost be sizeof_T a h_p n w =
           (if n = 0 then Inr w
            else if d_data a \<noteq> nullptr then dtoh_memcpy h_p (d_data a) (n * sizeof_T) w
            else if h_data a \<noteq> nullptr then memcpy h_p (h_data a) (n * sizeof_T) w
            else Inr w) \<and>
         (n \<noteq> 0 \<and> d_data a \<noteq> nullptr \<and>
          run_stream (stream w)
            (log_call (Dtoh_memcpy_call h_p (d_data a) (n * sizeof_T)) (w\<lparr>stream := []\<rparr>)) = Inr wq \<and>
          map_of (dev_mem wq) (d_data a) = Some sb \<and> map_of (host_mem wq) h_p = Some db \<and>
          unat (n * sizeof_T) \<le> length sb \<and> unat (n * sizeof_T) \<le> length db \<longrightarrow>
            copyToHost be sizeof_T a h_p n w =
              Inr (wq\<lparr>host_mem := store h_p (copy_bytes (unat (n * sizeof_T)) sb db) (host_mem wq)\<rparr>)) \<and>
         (n \<noteq> 0 \<and> d_data a = nullptr \<and> h_data a \<noteq> nullptr \<and>
          map_of (host_mem w) (h_data a) = Some hb \<and> map_of (host_mem w) h_p = Some tb \<and>
          unat (n * sizeof_T) \<le> length hb \<and> unat (n * sizeof_T) \<le> length tb \<and>
          h_p \<noteq> h_data a \<longrightarrow>
            copyToHost be sizeof_T a h_p n w =
              Inr (log_call (Memcpy_call h_p (h_data a) (n * sizeof_T))
                    (w\<lparr>host_mem := store h_p (copy_bytes (unat (n * sizeof_T)) hb tb) (host_mem w)\<rparr>)))"
proof -
  have gpu: "d_data a \<noteq> nullptr \<Longrightarrow> AMREX_USE_GPU be"
    using buffer_state_no_gpu [OF assms] by auto
  have c1: "data a = (if d_data a \<noteq> nullptr then d_data a else h_data a)"
    by (simp add: data_def)
  have c2: "d_data a = nullptr \<and> h_data a = nullptr \<longrightarrow> data a = nullptr"
    by (simp add: data_def)
  have c3: "copyToHost be sizeof_T a h_p n w =
           (if n = 0 then Inr w
            else if d_data a \<noteq> nullptr then dtoh_memcpy h_p (d_data a) (n * sizeof_T) w
            else if h_data a \<noteq> nullptr then memcpy h_p (h_data a) (n * sizeof_T) w
            else Inr w)"
    using gpu by (simp add: copyToHost_def)
  have c4: "n \<noteq> 0 \<and> d_data a \<noteq> nullptr \<and>
          run_stream (stream w)
            (log_call (Dtoh_memcpy_call h_p (d_data a) (n * sizeof_T)) (w\<lparr>stream := []\<rparr>)) = Inr wq \<and>
          map_of (dev_mem wq) (d_data a) = Some sb \<and> map_of (host_mem wq) h_p = Some db \<and>
          unat (n * sizeof_T) \<le> length sb \<and> unat (n * sizeof_T) \<le> length db \<longrightarrow>
            copyToHost be sizeof_T a h_p n w =
              Inr (wq\<lparr>host_mem := store h_p (copy_bytes (unat (n * sizeof_T)) sb db) (host_mem wq)\<rparr>)"
    unfolding c3 using dtoh_memcpy_ok [of w h_p "d_data a" "n * sizeof_T" wq db sb] by simp
  have c5: "n \<noteq> 0 \<and> d_data a = nullptr \<and> h_data a \<noteq> nullptr \<and>
          map_of (host_mem w) (h_data a) = Some hb \<and> map_of (host_mem w) h_p = Some tb \<and>
          unat (n * sizeof_T) \<le> length hb \<and> unat (n * sizeof_T) \<le> length tb \<and>
          h_p \<noteq> h_data a \<longrightarrow>
            copyToHost be sizeof_T a h_p n w =
              Inr (log_call (Memcpy_call h_p (h_data a) (n * sizeof_T))
                    (w\<lparr>host_mem := store h_p (copy_bytes (unat (n * sizeof_T)) hb tb) (host_mem w)\<rparr>))"
    unfolding c3 using memcpy_ok [of w h_p tb "h_data a" hb "n * sizeof_T"] by simp
  from c1 c2 c3 c4 c5 show ?thesis by blast
qed

theorem accessors_prefer_device_witness:
  "data \<lparr>d_data = 1, h_data = nullptr\<rparr> = 1 \<and>
   copyToHost Cuda 1 \<lparr>d_data = 1, h_data = nullptr\<rparr> 1 1 device_world =
     Inr (device_world\<lparr>host_mem := [(1, [Some 7])], stream := [],
                       calls := [Dtoh_memcpy_call 1 1 1]\<rparr>) \<and>
   data \<lparr>d_data = nullptr, h_data = 3\<rparr> = 3 \<and>
   copyToHost No_gpu 1 \<lparr>d_data = nullptr, h_data = 3\<rparr> 2 4 host_staged_world =
     Inr (host_staged_world
            \<lparr>host_mem := [(3, [Some 1, Some 2, Some 3, Some 4]), (2, [Some 1, Some 2, Some 3, Some 4]),
                          (1, [Some 1, Some 2, Some 3, Some 4])],
             calls := [Alloc_call Pinned_arena 4, Memcpy_call 3 1 4, Memcpy_call 2 3 4]\<rparr>)"
proof -
  have bs: "buffer_state Cuda 1 \<lparr>d_data = 1, h_data = nullptr\<rparr>"
    by (rule constructed_uninit [of Cuda 1 1 async_world
          "log_call (Alloc_call Device_arena 1) (async_world\<lparr>dev_mem := [(1, [None])]\<rparr>)"])
      (simp add: AsyncArray_uninit_def alloc_device in_launch_region_def AMREX_USE_GPU_def
        async_world_def sync_world_def)
  let ?wq = "device_world\<lparr>stream := [], calls := [Dtoh_memcpy_call 1 1 1]\<rparr>"
  have dev0: "copyToHost Cuda 1 \<lparr>d_data = 1, h_data = nullptr\<rparr> 1 1 device_world =
     Inr (?wq\<lparr>host_mem := store 1 (copy_bytes (unat (1 * 1 :: size_t)) [Some 7] [None])
                               (host_mem ?wq)\<rparr>)"
    by (rule accessors_prefer_device [OF bs, of 1 1 1 device_world ?wq "[Some 7]" "[None]",
          THEN conjunct2, THEN conjunct2, THEN conjunct2, THEN conjunct1, rule_format])
      (simp add: exec_work_def log_call_def device_world_def)
  have dev: "copyToHost Cuda 1 \<lparr>d_data = 1, h_data = nullptr\<rparr> 1 1 device_world =
     Inr (device_world\<lparr>host_mem := [(1, [Some 7])], stream := [],
                       calls := [Dtoh_memcpy_call 1 1 1]\<rparr>)"
    unfolding dev0 by (simp add: device_world_def store_def copy_bytes_def)
  have fh: "AsyncArray_from_host No_gpu 1 1 4 sync_world =
              Inr (host_staged_world, \<lparr>d_data = nullptr, h_data = 3\<rparr>)"
    using from_host_sync [of 4 sync_world 1 "[Some 1, Some 2, Some 3, Some 4]" 1 No_gpu]
    by (simp add: in_launch_region_def AMREX_USE_GPU_def log_call_def sync_world_def
        host_staged_world_def)
  have bs2: "buffer_state No_gpu 4 \<lparr>d_data = nullptr, h_data = 3\<rparr>"
    using fh by (rule constructed_from_host)
  have host0: "copyToHost No_gpu 1 \<lparr>d_data = nullptr, h_data = 3\<rparr> 2 4 host_staged_world =
     Inr (log_call (Memcpy_call 2 3 (4 * 1))
            (host_staged_world
               \<lparr>host_mem := store 2 (copy_bytes (unat (4 * 1 :: size_t))
                                       [Some 1, Some 2, Some 3, Some 4] [None, None, None, None])
                               (host_mem host_staged_world)\<rparr>))"
    using accessors_prefer_device [OF bs2, of 1 2 4 host_staged_world _ _ _
          "[Some 1, Some 2, Some 3, Some 4]" "[None, None, None, None]",
          THEN conjunct2, THEN conjunct2, THEN conjunct2, THEN conjunct2]
    by (simp add: host_staged_world_def)
  have host: "copyToHost No_gpu 1 \<lparr>d_data = nullptr, h_data = 3\<rparr> 2 4 host_staged_world =
     Inr (host_staged_world
            \<lparr>host_mem := [(3, [Some 1, Some 2, Some 3, Some 4]), (2, [Some 1, Some 2, Some 3, Some 4]),
                          (1, [Some 1, Some 2, Some 3, Some 4])],
             calls := [Alloc_call Pinned_arena 4, Memcpy_call 3 1 4, Memcpy_call 2 3 4]\<rparr>)"
    unfolding host0 by (simp add: host_staged_world_def store_def copy_bytes_def log_call_def)
  from dev host show ?thesis
    by (simp add: data_def)
qed

subsection \<open>Allocation states\<close>

text \<open>
  C9, as the code has it. A buffer fresh from a constructor is in the state the claim
  lists: with \<open>n = 0\<close> both pointers are null; with \<open>n > 0\<close> outside the launch region only
  the host pointer is set; with \<open>n > 0\<close> in the launch region both are set after the
  from-host constructor and only the device pointer after the uninitialized one. After
  \<open>clear\<close> both pointers are null whatever \<open>n\<close> was. In every reachable state a buffer
  constructed with \<open>n = 0\<close> has both pointers null, and without GPU support the device
  pointer is null.
\<close>

theorem allocation_states:
  "(AsyncArray_from_host be sizeof_T h_p n w = Inr (wh, ah) \<longrightarrow>
      (if n = 0 then d_data ah = nullptr \<and> h_data ah = nullptr
       else if in_launch_region be w then d_data ah \<noteq> nullptr \<and> h_data ah \<noteq> nullptr
       else d_data ah = nullptr \<and> h_data ah \<noteq> nullptr)) \<and>
   (AsyncArray_uninit be sizeof_T n w = Inr (wu, au) \<longrightarrow>
      (if n = 0 then d_data au = nullptr \<and> h_data au = nullptr
       else if in_launch_region be w then d_data au \<noteq> nullptr \<and> h_data au = nullptr
       else d_data au = nullptr \<and> h_data au \<noteq> nullptr)) \<and>
   (clear be a wc = Inr (wc', a') \<longrightarrow> d_data a' = nullptr \<and> h_data a' = nullptr) \<and>
   (buffer_state be0 0 b0 \<longrightarrow> d_data b0 = nullptr \<and> h_data b0 = nullptr) \<and>
   (buffer_state No_gpu n1 b1 \<longrightarrow> d_data b1 = nullptr)"
proof -
  have c1: "AsyncArray_from_host be sizeof_T h_p n w = Inr (wh, ah) \<longrightarrow>
      (if n = 0 then d_data ah = nullptr \<and> h_data ah = nullptr
       else if in_launch_region be w then d_data ah \<noteq> nullptr \<and> h_data ah \<noteq> nullptr
       else d_data ah = nullptr \<and> h_data ah \<noteq> nullptr)"
  proof (cases "n = 0")
    case True
    then show ?thesis by (auto simp: AsyncArray_from_host_def empty_array_def)
  next
    case False
    then show ?thesis using from_host_result [of be sizeof_T h_p n w wh ah] by auto
  qed
  have c2: "AsyncArray_uninit be sizeof_T n w = Inr (wu, au) \<longrightarrow>
      (if n = 0 then d_data au = nullptr \<and> h_data au = nullptr
       else if in_launch_region be w then d_data au \<noteq> nullptr \<and> h_data au = nullptr
       else d_data au = nullptr \<and> h_data au \<noteq> nullptr)"
  proof (cases "n = 0")
    case True
    then show ?thesis by (auto simp: AsyncArray_uninit_def empty_array_def)
  next
    case False
    then show ?thesis using uninit_result [of be sizeof_T n w wu au] by auto
  qed
  have c3: "clear be a wc = Inr (wc', a') \<longrightarrow> d_data a' = nullptr \<and> h_data a' = nullptr"
    using clear_result_empty [of be a wc wc' a'] by (auto simp: empty_array_def)
  have c4: "buffer_state be0 0 b0 \<longrightarrow> d_data b0 = nullptr \<and> h_data b0 = nullptr"
    using buffer_state_zero [of be0 0 b0] by (auto simp: empty_array_def)
  have c5: "buffer_state No_gpu n1 b1 \<longrightarrow> d_data b1 = nullptr"
    using buffer_state_no_gpu [of No_gpu n1 b1] by (simp add: AMREX_USE_GPU_def)
  from c1 c2 c3 c4 c5 show ?thesis by blast
qed

theorem allocation_states_witness:
  "AsyncArray_from_host Cuda 1 1 4 async_world =
     Inr (staged_world, \<lparr>d_data = 1, h_data = 3\<rparr>) \<and>
   (d_data \<lparr>d_data = 1, h_data = 3\<rparr> \<noteq> nullptr \<and> h_data \<lparr>d_data = 1, h_data = 3\<rparr> \<noteq> nullptr) \<and>
   (d_data \<lparr>d_data = 1, h_data = nullptr\<rparr> \<noteq> nullptr \<and>
    h_data \<lparr>d_data = 1, h_data = nullptr\<rparr> = nullptr) \<and>
   (d_data empty_array = nullptr \<and> h_data empty_array = nullptr) \<and>
   buffer_state No_gpu 1 \<lparr>d_data = nullptr, h_data = 3\<rparr> \<and>
   d_data \<lparr>d_data = nullptr, h_data = 3\<rparr> = nullptr"
proof -
  have fh: "AsyncArray_from_host Cuda 1 1 4 async_world =
              Inr (staged_world, \<lparr>d_data = 1, h_data = 3\<rparr>)"
    using from_host_async [of 4 async_world 1 "[Some 1, Some 2, Some 3, Some 4]" 1 Cuda]
    by (simp add: in_launch_region_def AMREX_USE_GPU_def htod_memcpy_async_def log_call_def
        async_world_def sync_world_def staged_world_def replicate_four)
  have un: "AsyncArray_uninit Cuda 1 4 async_world =
              Inr (log_call (Alloc_call Device_arena 4)
                     (async_world\<lparr>dev_mem := [(1, replicate (unat (4 :: size_t)) None)]\<rparr>),
                   \<lparr>d_data = 1, h_data = nullptr\<rparr>)"
    by (simp add: AsyncArray_uninit_def alloc_device in_launch_region_def AMREX_USE_GPU_def
        async_world_def sync_world_def)
  have cl: "clear Cuda \<lparr>d_data = 1, h_data = 3\<rparr> staged_world =
             Inr (log_call (Register_release_call 1 3)
                    (staged_world\<lparr>stream := [Htod_copy 1 3 4, Release 1 3]\<rparr>), empty_array)"
    by (simp add: clear_def register_release_def in_launch_region_def AMREX_USE_GPU_def
        staged_world_def empty_array_def)
  have bs0: "buffer_state Cuda 0 empty_array"
    by (rule constructed_uninit [of Cuda 1 0 async_world async_world])
      (simp add: AsyncArray_uninit_def)
  have bs1: "buffer_state No_gpu 1 \<lparr>d_data = nullptr, h_data = 3\<rparr>"
    by (rule constructed_uninit [of No_gpu 4 1 sync_world
          "log_call (Alloc_call Pinned_arena 4)
             (sync_world\<lparr>host_mem := (3, [None, None, None, None]) # host_mem sync_world,
                          pinned := [3]\<rparr>)"])
      (simp add: AsyncArray_uninit_def alloc_pinned in_launch_region_def AMREX_USE_GPU_def
        sync_world_def replicate_four)
  show ?thesis
    using allocation_states [of Cuda 1 1 4 async_world staged_world "\<lparr>d_data = 1, h_data = 3\<rparr>"
        "log_call (Alloc_call Device_arena 4)
           (async_world\<lparr>dev_mem := [(1, replicate (unat (4 :: size_t)) None)]\<rparr>)"
        "\<lparr>d_data = 1, h_data = nullptr\<rparr>"
        "\<lparr>d_data = 1, h_data = 3\<rparr>" staged_world
        "log_call (Register_release_call 1 3)
           (staged_world\<lparr>stream := [Htod_copy 1 3 4, Release 1 3]\<rparr>)"
        empty_array Cuda empty_array 1 "\<lparr>d_data = nullptr, h_data = 3\<rparr>"]
      fh un cl bs0 bs1
    by (simp add: in_launch_region_def AMREX_USE_GPU_def async_world_def sync_world_def)
qed

text \<open>
  The claim as stated fails: without GPU support, a buffer constructed with \<open>n = 1\<close> and
  then cleared has both pointers null although its element count is 1.
\<close>

theorem cleared_buffer_counterexample:
  "AsyncArray_uninit No_gpu 4 1 sync_world =
     Inr (log_call (Alloc_call Pinned_arena 4)
            (sync_world\<lparr>host_mem := (3, [None, None, None, None]) # host_mem sync_world,
                         pinned := [3]\<rparr>),
          \<lparr>d_data = nullptr, h_data = 3\<rparr>) \<and>
   clear No_gpu \<lparr>d_data = nullptr, h_data = 3\<rparr>
       (log_call (Alloc_call Pinned_arena 4)
          (sync_world\<lparr>host_mem := (3, [None, None, None, None]) # host_mem sync_world,
                       pinned := [3]\<rparr>)) =
     Inr (log_call (Free_call Pinned_arena 3) (log_call (Alloc_call Pinned_arena 4) sync_world),
          \<lparr>d_data = nullptr, h_data = nullptr\<rparr>) \<and>
   \<not> claimed_invariant 1 \<lparr>d_data = nullptr, h_data = nullptr\<rparr>"
  by (simp add: AsyncArray_uninit_def alloc_pinned clear_def arena_free_def discard_def
      in_launch_region_def AMREX_USE_GPU_def claimed_invariant_def log_call_def
      sync_world_def Let_def replicate_four is_block_def)

subsection \<open>The execution mode is asked again at release\<close>

text \<open>
  C3. \<open>clear\<close> takes its path from what \<open>inLaunchRegion()\<close> answers when it is called; the
  buffer keeps no record of the answer at construction. In a GPU build, for a buffer
  constructed with \<open>n > 0\<close> (by either constructor) whose allocations are still live, if
  the answer at release differs from the answer at construction then \<open>clear\<close> returns the
  empty buffer, registers nothing on the stream, and leaves an allocation behind that no
  pointer of the buffer names any more. Constructed in the launch region and cleared
  outside it: the only call is \<open>free\<close> of the host pointer on the pinned arena, and the
  device block stays allocated. Constructed outside and cleared inside: no call at all,
  and the pinned block stays allocated.
\<close>

theorem mode_change_leaks:
  assumes gpu: "AMREX_USE_GPU be" and n: "n \<noteq> 0"
    and ctor: "AsyncArray_from_host be sizeof_T h_p n w = Inr (w1, a) \<or>
               AsyncArray_uninit be sizeof_T n w = Inr (w1, a)"
    and live: "owns_live a w2"
    and mode: "launch_region w2 \<noteq> launch_region w"
  shows "\<exists>w3. clear be a w2 = Inr (w3, empty_array) \<and> stream w3 = stream w2 \<and>
           dev_mem w3 = dev_mem w2 \<and>
           (if launch_region w
            then d_data a \<noteq> nullptr \<and> is_block (dev_mem w3) (d_data a) \<and>
                 calls w3 = calls w2 @ [Free_call Pinned_arena (h_data a)]
            else h_data a \<noteq> nullptr \<and> h_data a \<in> set (pinned w3) \<and>
                 is_block (host_mem w3) (h_data a) \<and> calls w3 = calls w2)"
proof (cases "launch_region w")
  case True
  then have ilr: "in_launch_region be w" and nilr: "\<not> in_launch_region be w2"
    using gpu mode by (simp_all add: in_launch_region_def)
  from ctor have d: "d_data a \<noteq> nullptr"
  proof
    assume "AsyncArray_from_host be sizeof_T h_p n w = Inr (w1, a)"
    from from_host_result [OF this n] ilr show ?thesis by auto
  next
    assume "AsyncArray_uninit be sizeof_T n w = Inr (w1, a)"
    from uninit_result [OF this n] ilr show ?thesis by auto
  qed
  with live have blk: "is_block (dev_mem w2) (d_data a)"
    by (simp add: owns_live_def)
  from live have "h_data a = nullptr \<or>
      (h_data a \<in> set (pinned w2) \<and> is_block (host_mem w2) (h_data a))"
    by (simp add: owns_live_def)
  then show ?thesis
  proof
    assume "h_data a = nullptr"
    then show ?thesis
      using True d blk nilr by (simp add: clear_sync free_null)
  next
    assume "h_data a \<in> set (pinned w2) \<and> is_block (host_mem w2) (h_data a)"
    then show ?thesis
      using True d blk nilr by (simp add: clear_sync free_pinned_live)
  qed
next
  case False
  then have nilr: "\<not> in_launch_region be w" and ilr: "in_launch_region be w2"
    using gpu mode by (simp_all add: in_launch_region_def)
  from ctor have facts: "d_data a = nullptr \<and> h_data a \<noteq> nullptr"
  proof
    assume "AsyncArray_from_host be sizeof_T h_p n w = Inr (w1, a)"
    from from_host_result [OF this n] nilr show ?thesis by auto
  next
    assume "AsyncArray_uninit be sizeof_T n w = Inr (w1, a)"
    from uninit_result [OF this n] nilr show ?thesis by auto
  qed
  with live have "h_data a \<in> set (pinned w2) \<and> is_block (host_mem w2) (h_data a)"
    by (simp add: owns_live_def)
  with facts show ?thesis
    using False ilr by (simp add: clear_async_no_device)
qed

theorem mode_change_leaks_witness:
  "\<exists>w3. clear Cuda \<lparr>d_data = 1, h_data = 3\<rparr> (staged_world\<lparr>launch_region := False\<rparr>) =
           Inr (w3, empty_array) \<and>
         stream w3 = [Htod_copy 1 3 4] \<and>
         dev_mem w3 = [(1, [None, None, None, None])] \<and>
         is_block (dev_mem w3) 1 \<and>
         calls w3 = calls staged_world @ [Free_call Pinned_arena 3]"
proof -
  have fh: "AsyncArray_from_host Cuda 1 1 4 async_world =
              Inr (staged_world, \<lparr>d_data = 1, h_data = 3\<rparr>)"
    using from_host_async [of 4 async_world 1 "[Some 1, Some 2, Some 3, Some 4]" 1 Cuda]
    by (simp add: in_launch_region_def AMREX_USE_GPU_def htod_memcpy_async_def log_call_def
        async_world_def sync_world_def staged_world_def replicate_four)
  have live: "owns_live \<lparr>d_data = 1, h_data = 3\<rparr> (staged_world\<lparr>launch_region := False\<rparr>)"
    by (simp add: owns_live_def staged_world_def)
  show ?thesis
    using mode_change_leaks [of Cuda 4 1 1 async_world staged_world
        "\<lparr>d_data = 1, h_data = 3\<rparr>" "staged_world\<lparr>launch_region := False\<rparr>"] fh live
    by (simp add: AMREX_USE_GPU_def async_world_def sync_world_def) (simp add: staged_world_def)
qed

subsection \<open>Deferred release\<close>

text \<open>
  C2, as the code has it. Let \<open>clear\<close> be called while \<open>inLaunchRegion()\<close> holds in a GPU
  build (the mode asked at release, whatever it was at construction) on a buffer whose
  device pointer is not null. With CUDA, HIP, or SYCL with host tasks, \<open>clear\<close> aborts if
  the runtime rejects the registration, and otherwise returns the empty buffer having
  freed nothing and without synchronizing: the world changes only in that the release
  of both pointers (the host pointer possibly null) is appended behind all work already
  on the stream, and the registration is logged. The stream runs in order: while any of
  the \<open>length (stream w)\<close> earlier units is incomplete the release is still pending, and
  the device block is still allocated unless earlier pending work itself released that
  pointer; draining the stream is draining the earlier work and only then running the
  release. With SYCL without host tasks \<open>clear\<close> synchronizes the stream first and then
  frees the device pointer and the host pointer itself, in that order; it returns the
  empty buffer whenever the pending work completes and leaves the buffer's allocations
  live.
\<close>

theorem clear_defers_device_release:
  assumes ilr: "in_launch_region be w" and d: "d_data a \<noteq> nullptr"
  shows "(be \<noteq> Sycl_no_host_task \<longrightarrow>
            clear be a w =
              (if registration_fails w then Inl Abort
               else Inr (log_call (Register_release_call (d_data a) (h_data a))
                          (w\<lparr>stream := stream w @ [Release (d_data a) (h_data a)]\<rparr>),
                         empty_array))) \<and>
         (\<forall>k wk. k \<le> length (stream w) \<and>
                 stream_progress k
                   (log_call (Register_release_call (d_data a) (h_data a))
                      (w\<lparr>stream := stream w @ [Release (d_data a) (h_data a)]\<rparr>)) = Inr wk \<longrightarrow>
               stream wk = drop k (stream w) @ [Release (d_data a) (h_data a)] \<and>
               (is_block (dev_mem w) (d_data a) \<and> \<not> list_ex (releases (d_data a)) (stream w) \<longrightarrow>
                  is_block (dev_mem wk) (d_data a))) \<and>
         (\<forall>w0. run_stream (stream w @ [Release (d_data a) (h_data a)]) w0 =
               (case run_stream (stream w) w0 of
                  Inl e \<Rightarrow> Inl e
                | Inr wq \<Rightarrow> exec_work (Release (d_data a) (h_data a)) wq)) \<and>
         (be = Sycl_no_host_task \<longrightarrow>
            clear be a w =
              (case run_stream (stream w) (log_call Stream_synchronize_call (w\<lparr>stream := []\<rparr>)) of
                 Inl e \<Rightarrow> Inl e
               | Inr wq \<Rightarrow>
                   (case arena_free Device_arena (d_data a) wq of
                      Inl e \<Rightarrow> Inl e
                    | Inr w2 \<Rightarrow>
                        (case arena_free Pinned_arena (h_data a) w2 of
                           Inl e \<Rightarrow> Inl e
                         | Inr w3 \<Rightarrow> Inr (w3, empty_array))))) \<and>
         (be = Sycl_no_host_task \<and>
          run_stream (stream w) (log_call Stream_synchronize_call (w\<lparr>stream := []\<rparr>)) = Inr wq \<and>
          owns_live a wq \<longrightarrow>
            (\<exists>w' cs. clear be a w = Inr (w', empty_array) \<and> stream w' = [] \<and>
               dev_mem w' = discard (d_data a) (dev_mem wq) \<and>
               calls w' = calls w @ Stream_synchronize_call # cs @
                 [Free_call Device_arena (d_data a), Free_call Pinned_arena (h_data a)] \<and>
               list_all is_free_call cs))"
proof -
  let ?r = "Release (d_data a) (h_data a)"
  let ?w' = "log_call (Register_release_call (d_data a) (h_data a)) (w\<lparr>stream := stream w @ [?r]\<rparr>)"
  have c1: "be \<noteq> Sycl_no_host_task \<longrightarrow>
            clear be a w = (if registration_fails w then Inl Abort else Inr (?w', empty_array))"
    using clear_registers [OF ilr d] by blast
  have s: "stream ?w' = stream w @ [?r]"
    by simp
  have dm: "dev_mem ?w' = dev_mem w"
    by simp
  have p: "\<And>k wk. k \<le> length (stream w) \<Longrightarrow> stream_progress k ?w' = Inr wk \<Longrightarrow>
               stream wk = drop k (stream w) @ [?r] \<and>
               (is_block (dev_mem w) (d_data a) \<and> \<not> list_ex (releases (d_data a)) (stream w) \<longrightarrow>
                  is_block (dev_mem wk) (d_data a))"
    using stream_progress_before_release [OF s, of _ _ "d_data a"] unfolding dm by blast
  have c2: "\<forall>k wk. k \<le> length (stream w) \<and> stream_progress k ?w' = Inr wk \<longrightarrow>
               stream wk = drop k (stream w) @ [?r] \<and>
               (is_block (dev_mem w) (d_data a) \<and> \<not> list_ex (releases (d_data a)) (stream w) \<longrightarrow>
                  is_block (dev_mem wk) (d_data a))"
    using p by blast
  have c3: "\<forall>w0. run_stream (stream w @ [?r]) w0 =
               (case run_stream (stream w) w0 of Inl e \<Rightarrow> Inl e | Inr wq \<Rightarrow> exec_work ?r wq)"
    by (simp add: run_stream_append)
  have c4: "be = Sycl_no_host_task \<longrightarrow>
            clear be a w =
              (case run_stream (stream w) (log_call Stream_synchronize_call (w\<lparr>stream := []\<rparr>)) of
                 Inl e \<Rightarrow> Inl e
               | Inr wq \<Rightarrow>
                   (case arena_free Device_arena (d_data a) wq of
                      Inl e \<Rightarrow> Inl e
                    | Inr w2 \<Rightarrow>
                        (case arena_free Pinned_arena (h_data a) w2 of
                           Inl e \<Rightarrow> Inl e
                         | Inr w3 \<Rightarrow> Inr (w3, empty_array))))"
    using clear_sycl_unfold [of w a] ilr d by blast
  have c5: "be = Sycl_no_host_task \<and>
          run_stream (stream w) (log_call Stream_synchronize_call (w\<lparr>stream := []\<rparr>)) = Inr wq \<and>
          owns_live a wq \<longrightarrow>
            (\<exists>w' cs. clear be a w = Inr (w', empty_array) \<and> stream w' = [] \<and>
               dev_mem w' = discard (d_data a) (dev_mem wq) \<and>
               calls w' = calls w @ Stream_synchronize_call # cs @
                 [Free_call Device_arena (d_data a), Free_call Pinned_arena (h_data a)] \<and>
               list_all is_free_call cs)"
    using clear_sycl_total [of w a wq] ilr d by blast
  from c1 c2 c3 c4 c5 show ?thesis by blast
qed

theorem clear_defers_device_release_witness:
  "clear Cuda \<lparr>d_data = 1, h_data = 3\<rparr> staged_world =
     Inr (log_call (Register_release_call 1 3)
            (staged_world\<lparr>stream := [Htod_copy 1 3 4, Release 1 3]\<rparr>), empty_array) \<and>
   (\<exists>wk. stream_progress 1
            (log_call (Register_release_call 1 3)
               (staged_world\<lparr>stream := [Htod_copy 1 3 4, Release 1 3]\<rparr>)) = Inr wk \<and>
         stream wk = [Release 1 3] \<and> is_block (dev_mem wk) 1) \<and>
   (\<exists>w' cs. clear Sycl_no_host_task \<lparr>d_data = 1, h_data = 3\<rparr> staged_world = Inr (w', empty_array) \<and>
         stream w' = [] \<and> dev_mem w' = [] \<and>
         calls w' = calls staged_world @ Stream_synchronize_call # cs @
           [Free_call Device_arena 1, Free_call Pinned_arena 3] \<and>
         list_all is_free_call cs)"
proof -
  let ?a = "\<lparr>d_data = 1, h_data = 3\<rparr>"
  let ?w' = "log_call (Register_release_call 1 3)
               (staged_world\<lparr>stream := [Htod_copy 1 3 4, Release 1 3]\<rparr>)"
  let ?wk = "?w'\<lparr>stream := [Release 1 3],
                 dev_mem := [(1, [Some 1, Some 2, Some 3, Some 4])]\<rparr>"
  let ?wq = "staged_world\<lparr>stream := [], dev_mem := [(1, [Some 1, Some 2, Some 3, Some 4])],
                          calls := calls staged_world @ [Stream_synchronize_call]\<rparr>"
  have d: "d_data ?a \<noteq> nullptr"
    by simp
  have ilr: "in_launch_region Cuda staged_world"
    by (simp add: in_launch_region_def AMREX_USE_GPU_def staged_world_def)
  have ilr2: "in_launch_region Sycl_no_host_task staged_world"
    by (simp add: in_launch_region_def AMREX_USE_GPU_def staged_world_def)
  note t = clear_defers_device_release [OF ilr d]
  from t [THEN conjunct1] have cl: "clear Cuda ?a staged_world = Inr (?w', empty_array)"
    by (simp add: staged_world_def)
  have sp: "stream_progress 1 ?w' = Inr ?wk"
    by (simp add: exec_work_def store_def copy_bytes_def log_call_def staged_world_def)
  from t [THEN conjunct2, THEN conjunct1]
  have step: "\<forall>k wk. k \<le> length (stream staged_world) \<and> stream_progress k ?w' = Inr wk \<longrightarrow>
      stream wk = drop k (stream staged_world) @ [Release 1 3] \<and>
      (is_block (dev_mem staged_world) 1 \<and> \<not> list_ex (releases 1) (stream staged_world) \<longrightarrow>
         is_block (dev_mem wk) 1)"
    by (simp add: staged_world_def)
  have k: "(1::nat) \<le> length (stream staged_world)"
    by (simp add: staged_world_def)
  have pre: "is_block (dev_mem staged_world) 1 \<and> \<not> list_ex (releases 1) (stream staged_world)"
    by (simp add: staged_world_def releases_def)
  from step [rule_format, OF conjI [OF k sp]] pre
  have after: "stream ?wk = [Release 1 3] \<and> is_block (dev_mem ?wk) 1"
    by (simp add: staged_world_def)
  have run: "run_stream (stream staged_world)
               (log_call Stream_synchronize_call (staged_world\<lparr>stream := []\<rparr>)) = Inr ?wq"
    by (simp add: exec_work_def store_def copy_bytes_def log_call_def staged_world_def)
  have live: "owns_live ?a ?wq"
    by (simp add: owns_live_def staged_world_def)
  have be: "Sycl_no_host_task = Sycl_no_host_task"
    by simp
  from clear_defers_device_release [OF ilr2 d, of ?wq, THEN conjunct2, THEN conjunct2,
      THEN conjunct2, THEN conjunct2, rule_format, OF conjI [OF be conjI [OF run live]]]
  have sycl: "\<exists>w' cs. clear Sycl_no_host_task ?a staged_world = Inr (w', empty_array) \<and>
         stream w' = [] \<and> dev_mem w' = [] \<and>
         calls w' = calls staged_world @ Stream_synchronize_call # cs @
           [Free_call Device_arena 1, Free_call Pinned_arena 3] \<and>
         list_all is_free_call cs"
    by (simp add: staged_world_def discard_def)
  from cl sp after sycl show ?thesis
    by blast
qed

text \<open>
  The claim as stated fails for a buffer allocated in asynchronous mode and released
  after the mode has changed: the CUDA build's buffer constructed from a host source in
  the launch region holds the device block at address 1; cleared outside the launch
  region, \<open>clear\<close> registers nothing on the stream, its only call is \<open>free\<close> of the host
  pointer on the pinned arena, and the device block stays allocated.
\<close>

theorem clear_after_mode_change_counterexample:
  "AsyncArray_from_host Cuda 1 1 4 async_world =
     Inr (staged_world, \<lparr>d_data = 1, h_data = 3\<rparr>) \<and>
   clear Cuda \<lparr>d_data = 1, h_data = 3\<rparr> (staged_world\<lparr>launch_region := False\<rparr>) =
     Inr (staged_world
            \<lparr>launch_region := False,
             host_mem := [(2, [None, None, None, None]), (1, [Some 1, Some 2, Some 3, Some 4])],
             pinned := [],
             calls := calls staged_world @ [Free_call Pinned_arena 3]\<rparr>,
          empty_array) \<and>
   stream staged_world = [Htod_copy 1 3 4] \<and>
   dev_mem staged_world = [(1, [None, None, None, None])]"
proof -
  have fh: "AsyncArray_from_host Cuda 1 1 4 async_world =
              Inr (staged_world, \<lparr>d_data = 1, h_data = 3\<rparr>)"
    using from_host_async [of 4 async_world 1 "[Some 1, Some 2, Some 3, Some 4]" 1 Cuda]
    by (simp add: in_launch_region_def AMREX_USE_GPU_def htod_memcpy_async_def log_call_def
        async_world_def sync_world_def staged_world_def replicate_four)
  have cl: "clear Cuda \<lparr>d_data = 1, h_data = 3\<rparr> (staged_world\<lparr>launch_region := False\<rparr>) =
     Inr (staged_world
            \<lparr>launch_region := False,
             host_mem := [(2, [None, None, None, None]), (1, [Some 1, Some 2, Some 3, Some 4])],
             pinned := [],
             calls := calls staged_world @ [Free_call Pinned_arena 3]\<rparr>,
          empty_array)"
    by (simp add: clear_def arena_free_def discard_def in_launch_region_def AMREX_USE_GPU_def
        log_call_def staged_world_def empty_array_def Let_def)
  from fh cl show ?thesis
    by (simp add: staged_world_def)
qed

subsection \<open>Construct, then copy back\<close>

text \<open>
  C1. Let the source be a host block of \<open>n\<close> elements of \<open>sizeof(T)\<close> bytes each, \<open>n > 0\<close>
  (so its \<open>n * sizeof(T)\<close> bytes fit the address space), and the destination a host block
  of the same size. Let the work pending on the stream at construction be work that
  completes, and that does not release the destination. Then the from-host constructor
  returns, \<open>copyToHost\<close> of \<open>n\<close> elements on the new buffer returns, and afterwards the
  destination block is exactly the source block, byte for byte. This holds in every
  configuration: on the device path (launch region active in a GPU build: staging copy,
  asynchronous host-to-device copy, device-to-host copy after the stream has run) and on
  the host-only path (two \<open>memcpy\<close> calls).
\<close>

theorem construct_then_copy_back:
  assumes n: "n \<noteq> 0"
    and fits: "unat n * unat sizeof_T < 2 ^ 64"
    and src: "map_of (host_mem w) h_src = Some sb" and src_len: "length sb = unat n * unat sizeof_T"
    and dst: "map_of (host_mem w) h_dst = Some tb" and dst_len: "length tb = unat n * unat sizeof_T"
    and pending: "run_stream (stream w) w = Inr wq"
    and keep: "\<not> list_ex (releases_host h_dst) (stream w)"
  shows "\<exists>w1 a w2. AsyncArray_from_host be sizeof_T h_src n w = Inr (w1, a) \<and>
           copyToHost be sizeof_T a h_dst n w1 = Inr w2 \<and>
           map_of (host_mem w2) h_dst = Some sb"
proof -
  let ?nb = "n * sizeof_T"
  let ?h = "fresh_ptr (host_mem w)"
  let ?d = "fresh_ptr (dev_mem w)"
  have nb: "unat ?nb = length sb" "unat ?nb = length tb"
    using nbytes_exact [OF fits] src_len dst_len by simp_all
  have le: "unat ?nb \<le> length sb"
    using nb by simp
  have ne: "h_dst \<noteq> ?h" "h_src \<noteq> ?h"
    using fresh_ptr_gt [OF dst] fresh_ptr_gt [OF src] by simp_all
  have tk: "take (unat ?nb) sb = sb"
    using nb by simp
  show ?thesis
  proof (cases "in_launch_region be w")
    case False
    let ?w1 = "log_call (Memcpy_call ?h h_src ?nb)
                 (log_call (Alloc_call Pinned_arena ?nb)
                   (w\<lparr>host_mem := (?h, take (unat ?nb) sb) # host_mem w, pinned := ?h # pinned w\<rparr>))"
    let ?a = "\<lparr>d_data = nullptr, h_data = ?h\<rparr>"
    have ctor: "AsyncArray_from_host be sizeof_T h_src n w = Inr (?w1, ?a)"
      using from_host_sync [OF n src le False] .
    have m1: "map_of (host_mem ?w1) h_dst = Some tb" "map_of (host_mem ?w1) ?h = Some sb"
      using ne dst tk by simp_all
    have cp: "copyToHost be sizeof_T ?a h_dst n ?w1 =
                Inr (log_call (Memcpy_call h_dst ?h ?nb)
                      (?w1\<lparr>host_mem := store h_dst (copy_bytes (unat ?nb) sb tb) (host_mem ?w1)\<rparr>))"
      using n ne memcpy_ok [OF m1, of ?nb] nb by (simp add: copyToHost_def)
    have res: "map_of (host_mem (log_call (Memcpy_call h_dst ?h ?nb)
                 (?w1\<lparr>host_mem := store h_dst (copy_bytes (unat ?nb) sb tb) (host_mem ?w1)\<rparr>))) h_dst =
               Some sb"
      using m1(1) nb by (simp add: map_of_store is_block_def copy_bytes_all del: is_block_Cons)
    from ctor cp res show ?thesis by blast
  next
    case True
    then have gpu: "AMREX_USE_GPU be"
      by (simp add: in_launch_region_def)
    let ?w0 = "log_call (Alloc_call Device_arena ?nb)
                 (log_call (Memcpy_call ?h h_src ?nb)
                   (log_call (Alloc_call Pinned_arena ?nb)
                     (w\<lparr>host_mem := (?h, take (unat ?nb) sb) # host_mem w,
                        pinned := ?h # pinned w,
                        dev_mem := (?d, replicate (unat ?nb) None) # dev_mem w\<rparr>)))"
    let ?w1 = "htod_memcpy_async ?d ?h ?nb ?w0"
    let ?a = "\<lparr>d_data = ?d, h_data = ?h\<rparr>"
    have ctor: "AsyncArray_from_host be sizeof_T h_src n w = Inr (?w1, ?a)"
      using from_host_async [OF n src le True] .
    let ?wx = "log_call (Dtoh_memcpy_call h_dst ?d ?nb) (?w1\<lparr>stream := []\<rparr>)"
    have ext: "extends_by ?h sb ?d (replicate (unat ?nb) None) w ?wx"
      using tk by (simp add: extends_by_def htod_memcpy_async_def)
    from run_stream_extends [OF ext pending] obtain wxq where
      rq: "run_stream (stream w) ?wx = Inr wxq" and
      extq: "extends_by ?h sb ?d (replicate (unat ?nb) None) wq wxq"
      by blast
    have hq: "map_of (host_mem wq) h_dst = Some tb"
      using run_stream_host_block [OF pending keep] dst by simp
    have blocks: "map_of (dev_mem wxq) ?d = Some (replicate (unat ?nb) None)"
      "map_of (host_mem wxq) ?h = Some sb" "map_of (host_mem wxq) h_dst = Some tb"
      using extq hq ne by (simp_all add: extends_by_def)
    let ?wc = "wxq\<lparr>dev_mem := store ?d (copy_bytes (unat ?nb) sb (replicate (unat ?nb) None)) (dev_mem wxq)\<rparr>"
    have ex: "exec_work (Htod_copy ?d ?h ?nb) wxq = Inr ?wc"
      using exec_htod_ok [OF blocks(1,2)] nb by simp
    have st: "stream ?w1 = stream w @ [Htod_copy ?d ?h ?nb]"
      by (simp add: htod_memcpy_async_def)
    have run: "run_stream (stream ?w1) ?wx = Inr ?wc"
      unfolding st run_stream_append using rq ex by simp
    have dev: "map_of (dev_mem ?wc) ?d = Some sb"
      using blocks(1) nb by (simp add: map_of_store is_block_def copy_bytes_all)
    have host: "map_of (host_mem ?wc) h_dst = Some tb"
      using blocks(3) by simp
    have cp: "copyToHost be sizeof_T ?a h_dst n ?w1 =
                Inr (?wc\<lparr>host_mem := store h_dst (copy_bytes (unat ?nb) sb tb) (host_mem ?wc)\<rparr>)"
      using n gpu dtoh_memcpy_ok [OF run host dev] nb by (simp add: copyToHost_def)
    have res: "map_of (host_mem (?wc\<lparr>host_mem := store h_dst (copy_bytes (unat ?nb) sb tb) (host_mem ?wc)\<rparr>)) h_dst =
               Some sb"
      using host nb by (simp add: map_of_store is_block_def copy_bytes_all)
    from ctor cp res show ?thesis by blast
  qed
qed

theorem construct_then_copy_back_witness:
  "\<exists>w1 a w2. AsyncArray_from_host Cuda 1 1 4 async_world = Inr (w1, a) \<and>
     copyToHost Cuda 1 a 2 4 w1 = Inr w2 \<and>
     map_of (host_mem w2) 2 = Some [Some 1, Some 2, Some 3, Some 4]"
  using construct_then_copy_back [of 4 1 async_world 1 "[Some 1, Some 2, Some 3, Some 4]" 2
      "[None, None, None, None]" async_world Cuda]
  by (simp add: async_world_def sync_world_def)

end
